(* ===== verification/Prelude.thy ===== *)
theory Prelude
  imports Complex_Main "HOL-Library.Sublist"
begin

text \<open>
  Shared vocabulary of the development: the named collections that carry the
  component proofs, the exceptions the core of the NEO program raises, the
  type that records what a drained Python generator produced, and generic
  lemmas on lists and maps that several components use.
\<close>

named_theorems py_simps "evaluation rules of the Python builtins as modelled"
named_theorems link_simps "rules describing the linkage pass of the database"

section \<open>Exceptions\<close>

text \<open>
  The exceptions that the core code (\<^verbatim>\<open>models.py\<close>, \<^verbatim>\<open>database.py\<close>,
  \<^verbatim>\<open>filters.py\<close>) can raise on well-typed inputs:
  \<^item> \<open>UnsupportedCriterionError\<close>: \<^verbatim>\<open>AttributeFilter.get\<close> of the base class;
  \<^item> \<open>AttributeError\<close>: reading \<^verbatim>\<open>approach.neo.diameter\<close> or
    \<^verbatim>\<open>approach.neo.hazardous\<close> when \<^verbatim>\<open>approach.neo\<close> is \<^verbatim>\<open>None\<close>;
  \<^item> \<open>ValueError\<close>: \<^verbatim>\<open>itertools.islice\<close> with a negative stop,
    \<^verbatim>\<open>datetime.strptime\<close> on a malformed timestamp, and
    \<^verbatim>\<open>csv.DictWriter.writerow\<close> on a key that is not a field;
  \<^item> \<open>TypeError\<close>: \<^verbatim>\<open>float(None)\<close> in the JSON writer.
\<close>

datatype py_error = UnsupportedCriterionError | AttributeError | ValueError | TypeError

section \<open>Drained generators\<close>

text \<open>
  A Python generator is observed by draining it: it yields a finite list of
  items and then either stops or raises. The pair \<open>(xs, None)\<close> is a generator
  that yielded \<open>xs\<close> and was exhausted; \<open>(xs, Some e)\<close> one that yielded \<open>xs\<close>
  and then raised \<open>e\<close>. Laziness matters where a consumer stops pulling
  early (\<^verbatim>\<open>itertools.islice\<close>): an exception that comes after the last item
  pulled is never raised.
\<close>

type_synonym 'a gen = "'a list \<times> py_error option"

definition gen_cons :: "'a \<Rightarrow> 'a gen \<Rightarrow> 'a gen" where
  "gen_cons x g = (x # fst g, snd g)"

lemma gen_cons_sel [simp]:
  "fst (gen_cons x g) = x # fst g"
  "snd (gen_cons x g) = snd g"
  by (simp_all add: gen_cons_def)

section \<open>Lists and maps\<close>

text \<open>
  A loop \<^verbatim>\<open>for i, x in enumerate(xs): m[k(x)] = i\<close> is a left fold over
  \<open>enumerate 0 xs\<close>; peeling its last step is the lemma the index proofs use.
\<close>

lemma foldl_enumerate_snoc [simp]:
  "foldl f s (enumerate n (xs @ [x])) = f (foldl f s (enumerate n xs)) (n + length xs, x)"
  by (simp add: enumerate_append_eq)

text \<open>
  The positions of a list selected by a predicate, in increasing order, are
  distinct and strictly sorted: the shape of every ``appended in input order''
  sequence of the development.
\<close>

lemma filter_upt_sorted_distinct [intro, simp]:
  "sorted_wrt (<) (filter P [m..<n])"
  "distinct (filter P [m..<n])"
  by (simp_all add: sorted_wrt_filter)

lemma count_filter_upt:
  "count_list (filter P [0..<n]) j = (if P j \<and> j < n then 1 else 0)"
  by (induction n) auto

text \<open>A linear scan for a key that no two elements share finds exactly the element with that key.\<close>

lemma find_distinct_key:
  "distinct (map k xs) \<Longrightarrow> find (\<lambda>x. k x = v) xs = Some x \<longleftrightarrow> x \<in> set xs \<and> k x = v"
  by (induction xs) (auto simp: rev_image_eqI)

end
