(* ===== verification/PyBuiltins.thy ===== *)
theory PyBuiltins
  imports Prelude
begin

text \<open>
  The Python builtins the core relies on, with the semantics the code
  observes: floats with the not-a-number sentinel (\<^verbatim>\<open>float("nan")\<close>),
  truthiness of \<^verbatim>\<open>x or float("nan")\<close> and \<^verbatim>\<open>if x:\<close>, the comparators
  \<^verbatim>\<open>operator.eq\<close>, \<^verbatim>\<open>operator.le\<close>, \<^verbatim>\<open>operator.ge\<close>, the ASCII part of
  \<^verbatim>\<open>str.upper\<close>, \<^verbatim>\<open>str.lower\<close>, \<^verbatim>\<open>str.capitalize\<close>, and
  \<^verbatim>\<open>list(itertools.islice(it, 0, n))\<close>.
\<close>

section \<open>Floats with NaN\<close>

text \<open>
  The core never computes with floats: it stores them, tests their truth and
  compares them. A float is therefore a real number or the NaN sentinel;
  every comparison involving NaN is false, as in IEEE 754 and Python.
  Rounding and the infinities are not modelled.
\<close>

datatype flt = Fin real | NaN

fun py_truthy_flt :: "flt \<Rightarrow> bool" where
  "py_truthy_flt (Fin r) = (r \<noteq> 0)"
| "py_truthy_flt NaN = True"

text \<open>
  \<^verbatim>\<open>x or float("nan")\<close> and \<^verbatim>\<open>x if x else float("nan")\<close> for an
  optional float \<open>x\<close> (\<^verbatim>\<open>None\<close> or a float): \<^verbatim>\<open>None\<close> and \<^verbatim>\<open>0.0\<close>
  are falsy and become NaN.
\<close>

fun py_or_nan :: "flt option \<Rightarrow> flt" where
  "py_or_nan None = NaN"
| "py_or_nan (Some x) = (if py_truthy_flt x then x else NaN)"

section \<open>Comparators of the operator module\<close>

datatype comparator = OpEq | OpLe | OpGe

text \<open>\<^verbatim>\<open>op(a, b)\<close> on a totally ordered type (dates, booleans, reals).\<close>

fun apply_op :: "comparator \<Rightarrow> 'a::linorder \<Rightarrow> 'a \<Rightarrow> bool" where
  "apply_op OpEq a b = (a = b)"
| "apply_op OpLe a b = (a \<le> b)"
| "apply_op OpGe a b = (a \<ge> b)"

text \<open>\<^verbatim>\<open>op(a, b)\<close> on floats: false as soon as one side is NaN.\<close>

fun apply_op_flt :: "comparator \<Rightarrow> flt \<Rightarrow> flt \<Rightarrow> bool" where
  "apply_op_flt c (Fin a) (Fin b) = apply_op c a b"
| "apply_op_flt c NaN y = False"
| "apply_op_flt c x NaN = False"

lemma apply_op_flt_NaN_right [simp, py_simps]:
  "apply_op_flt c x NaN = False"
  by (cases x) simp_all

lemma apply_op_flt_Fin_iff:
  "apply_op_flt c x y \<longleftrightarrow> (\<exists>a b. x = Fin a \<and> y = Fin b \<and> apply_op c a b)"
  by (cases x; cases y) simp_all

lemma eq_char_of_iff [py_simps]: "c = char_of n \<longleftrightarrow> take_bit 8 n = of_char c"
  using char_of_eq_iff [of n c] by auto

declare char_of_eq_iff [py_simps]

section \<open>Strings\<close>

text \<open>
  Strings are byte strings (\<open>char list\<close>); case mapping is the ASCII part of
  Python's: \<^verbatim>\<open>str.upper\<close> maps \<^verbatim>\<open>a..z\<close> to \<^verbatim>\<open>A..Z\<close>,
  \<^verbatim>\<open>str.lower\<close> the converse, and \<^verbatim>\<open>str.capitalize\<close> upper-cases the first
  character and lower-cases all the others.
\<close>

definition py_upper_char :: "char \<Rightarrow> char" where
  "py_upper_char c =
     (if 97 \<le> (of_char c :: nat) \<and> (of_char c :: nat) \<le> 122
      then char_of (of_char c - (32 :: nat)) else c)"

definition py_lower_char :: "char \<Rightarrow> char" where
  "py_lower_char c =
     (if 65 \<le> (of_char c :: nat) \<and> (of_char c :: nat) \<le> 90
      then char_of (of_char c + (32 :: nat)) else c)"

definition py_upper :: "string \<Rightarrow> string" where
  "py_upper s = map py_upper_char s"

fun py_capitalize :: "string \<Rightarrow> string" where
  "py_capitalize [] = []"
| "py_capitalize (c # cs) = py_upper_char c # map py_lower_char cs"

declare py_upper_char_def [py_simps] py_lower_char_def [py_simps] py_upper_def [py_simps]

section \<open>Slicing a generator\<close>

text \<open>
  \<^verbatim>\<open>list(itertools.islice(it, 0, n))\<close>: a negative stop raises
  \<open>ValueError\<close> before anything is pulled; otherwise items are pulled until
  \<open>n\<close> have been produced, and no further, so an exception of the source that
  comes after the \<open>n\<close>-th item is never raised; an exception before it
  propagates out of \<^verbatim>\<open>list\<close>, and the caller receives no items.
\<close>

definition islice_list :: "'a gen \<Rightarrow> int \<Rightarrow> 'a gen" where
  "islice_list g n =
     (if n < 0 then ([], Some ValueError)
      else if nat n \<le> length (fst g) then (take (nat n) (fst g), None)
      else (case snd g of None \<Rightarrow> (fst g, None) | Some e \<Rightarrow> ([], Some e)))"

end
