(* ===== verification/DateTime.thy ===== *)
theory DateTime
  imports PyBuiltins "HOL-Library.Product_Lexorder"
begin

text \<open>
  Timestamps of close approaches. \<^verbatim>\<open>models.py\<close> converts the NASA compact
  form with \<^verbatim>\<open>helpers.cd_to_datetime\<close>
  (\<^verbatim>\<open>datetime.strptime(s, "%Y-%b-%d %H:%M")\<close>) and prints with
  \<^verbatim>\<open>helpers.datetime_to_str\<close> (\<^verbatim>\<open>dt.strftime("%Y-%m-%d %H:%M")\<close>);
  \<^verbatim>\<open>DateFilter.get\<close> compares \<^verbatim>\<open>approach.time.date()\<close>. The module
  \<^verbatim>\<open>helpers.py\<close> is not part of the sources, so both functions are modelled
  from the formats the specification states: fixed-width fields, a four-digit
  year, English month abbreviations matched without regard to case, and the
  range checks of the \<^verbatim>\<open>datetime\<close> constructor (leap years included).
\<close>

section \<open>Dates and their order\<close>

datatype date = Date nat nat nat \<comment> \<open>year, month, day, as \<^verbatim>\<open>datetime.date\<close>\<close>

fun date_key :: "date \<Rightarrow> nat \<times> nat \<times> nat" where
  "date_key (Date y m d) = (y, m, d)"

text \<open>\<^verbatim>\<open>datetime.date\<close> compares lexicographically on (year, month, day).\<close>

instantiation date :: linorder
begin

definition less_eq_date :: "date \<Rightarrow> date \<Rightarrow> bool" where
  "less_eq_date a b \<longleftrightarrow> date_key a \<le> date_key b"

definition less_date :: "date \<Rightarrow> date \<Rightarrow> bool" where
  "less_date a b \<longleftrightarrow> date_key a < date_key b"

instance
proof
  fix a b c :: date
  show "(a < b) = (a \<le> b \<and> \<not> b \<le> a)"
    by (auto simp: less_eq_date_def less_date_def)
  show "a \<le> a" by (simp add: less_eq_date_def)
  show "a \<le> b \<Longrightarrow> b \<le> c \<Longrightarrow> a \<le> c"
    by (auto simp: less_eq_date_def)
  show "a \<le> b \<Longrightarrow> b \<le> a \<Longrightarrow> a = b"
    by (cases a; cases b) (auto simp: less_eq_date_def)
  show "a \<le> b \<or> b \<le> a"
    by (auto simp: less_eq_date_def)
qed

end

section \<open>Date-times\<close>

text \<open>A \<^verbatim>\<open>datetime.datetime\<close> whose seconds are zero (the format has none).\<close>

record datetime =
  dt_year :: nat
  dt_month :: nat
  dt_day :: nat
  dt_hour :: nat
  dt_minute :: nat

definition datetime_date :: "datetime \<Rightarrow> date" where
  "datetime_date t = Date (dt_year t) (dt_month t) (dt_day t)"

definition is_leap :: "nat \<Rightarrow> bool" where
  "is_leap y \<longleftrightarrow> 4 dvd y \<and> (\<not> 100 dvd y \<or> 400 dvd y)"

definition days_in_month :: "nat \<Rightarrow> nat \<Rightarrow> nat" where
  "days_in_month y m =
     (if m = 2 then (if is_leap y then 29 else 28)
      else if m \<in> {4, 6, 9, 11} then 30 else 31)"

text \<open>The range checks of the \<^verbatim>\<open>datetime\<close> constructor.\<close>

definition valid_datetime :: "datetime \<Rightarrow> bool" where
  "valid_datetime t \<longleftrightarrow>
     1 \<le> dt_year t \<and> dt_year t \<le> 9999 \<and> 1 \<le> dt_month t \<and> dt_month t \<le> 12 \<and>
     1 \<le> dt_day t \<and> dt_day t \<le> days_in_month (dt_year t) (dt_month t) \<and>
     dt_hour t < 24 \<and> dt_minute t < 60"

section \<open>Digits\<close>

definition digit_val :: "char \<Rightarrow> nat option" where
  "digit_val c = (let n = (of_char c :: nat) in if 48 \<le> n \<and> n \<le> 57 then Some (n - 48) else None)"

definition digit_char :: "nat \<Rightarrow> char" where
  "digit_char d = char_of (48 + d)"

text \<open>Reading a run of decimal digits, most significant first.\<close>

fun parse_digits :: "nat \<Rightarrow> string \<Rightarrow> nat option" where
  "parse_digits acc [] = Some acc"
| "parse_digits acc (c # cs) =
     (case digit_val c of None \<Rightarrow> None | Some d \<Rightarrow> parse_digits (10 * acc + d) cs)"

text \<open>Printing with zero padding to a fixed width (\<^verbatim>\<open>%Y\<close>, \<^verbatim>\<open>%m\<close>, ...).\<close>

fun pad_nat :: "nat \<Rightarrow> nat \<Rightarrow> string" where
  "pad_nat 0 n = []"
| "pad_nat (Suc w) n = pad_nat w (n div 10) @ [digit_char (n mod 10)]"

section \<open>Month abbreviations\<close>

definition month_abbrs :: "string list" where
  "month_abbrs = [''Jan'', ''Feb'', ''Mar'', ''Apr'', ''May'', ''Jun'',
                  ''Jul'', ''Aug'', ''Sep'', ''Oct'', ''Nov'', ''Dec'']"

text \<open>\<^verbatim>\<open>%b\<close>: the month whose abbreviation matches, ignoring case; 1-based.\<close>

fun find_month :: "nat \<Rightarrow> string list \<Rightarrow> string \<Rightarrow> nat option" where
  "find_month i [] s = None"
| "find_month i (a # as) s =
     (if map py_lower_char a = map py_lower_char s then Some i else find_month (Suc i) as s)"

definition month_of_abbr :: "string \<Rightarrow> nat option" where
  "month_of_abbr s = find_month 1 month_abbrs s"

section \<open>Parsing and printing\<close>

text \<open>
  \<^verbatim>\<open>cd_to_datetime\<close>: the text must be exactly
  \<^verbatim>\<open>YYYY-Mmm-DD hh:mm\<close>; anything else, or a date the calendar does not have,
  raises \<open>ValueError\<close>.
\<close>

definition cd_to_datetime :: "string \<Rightarrow> py_error + datetime" where
  "cd_to_datetime s =
     (if length s = 17 \<and> s ! 4 = CHR ''-'' \<and> s ! 8 = CHR ''-'' \<and> s ! 11 = CHR '' ''
         \<and> s ! 14 = CHR '':''
      then
        (case (parse_digits 0 (take 4 s), month_of_abbr (take 3 (drop 5 s)),
               parse_digits 0 (take 2 (drop 9 s)), parse_digits 0 (take 2 (drop 12 s)),
               parse_digits 0 (take 2 (drop 15 s))) of
          (Some y, Some m, Some d, Some h, Some mi) \<Rightarrow>
            let t = \<lparr>dt_year = y, dt_month = m, dt_day = d, dt_hour = h, dt_minute = mi\<rparr>
            in if valid_datetime t then Inr t else Inl ValueError
        | _ \<Rightarrow> Inl ValueError)
      else Inl ValueError)"

text \<open>\<^verbatim>\<open>datetime_to_str\<close>: \<^verbatim>\<open>YYYY-MM-DD hh:mm\<close>.\<close>

definition datetime_to_str :: "datetime \<Rightarrow> string" where
  "datetime_to_str t =
     pad_nat 4 (dt_year t) @ ''-'' @ pad_nat 2 (dt_month t) @ ''-'' @ pad_nat 2 (dt_day t)
     @ '' '' @ pad_nat 2 (dt_hour t) @ '':'' @ pad_nat 2 (dt_minute t)"

text \<open>The NASA compact form of a date-time, the input format of \<open>cd_to_datetime\<close>.\<close>

definition datetime_to_cd :: "datetime \<Rightarrow> string" where
  "datetime_to_cd t =
     pad_nat 4 (dt_year t) @ ''-'' @ month_abbrs ! (dt_month t - 1) @ ''-'' @ pad_nat 2 (dt_day t)
     @ '' '' @ pad_nat 2 (dt_hour t) @ '':'' @ pad_nat 2 (dt_minute t)"

section \<open>Properties\<close>

lemma date_le_iff [simp]:
  "Date y m d \<le> Date y' m' d' \<longleftrightarrow> (y, m, d) \<le> (y', m', d')"
  by (simp add: less_eq_date_def)

lemma length_pad_nat [simp]: "length (pad_nat w n) = w"
  by (induction w arbitrary: n) simp_all

lemma digit_val_digit_char [simp]: "d < 10 \<Longrightarrow> digit_val (digit_char d) = Some d"
  by (simp add: digit_val_def digit_char_def)

lemma parse_digits_append:
  "parse_digits acc (xs @ ys) =
     (case parse_digits acc xs of None \<Rightarrow> None | Some a \<Rightarrow> parse_digits a ys)"
  by (induction acc xs rule: parse_digits.induct) (simp_all split: option.split)

lemma parse_pad_nat:
  "n < 10 ^ w \<Longrightarrow> parse_digits acc (pad_nat w n) = Some (acc * 10 ^ w + n)"
proof (induction w arbitrary: n acc)
  case 0
  then show ?case by simp
next
  case (Suc w)
  then have "n div 10 < 10 ^ w" by (simp add: less_mult_imp_div_less mult.commute)
  then have "parse_digits acc (pad_nat w (n div 10)) = Some (acc * 10 ^ w + n div 10)"
    by (rule Suc.IH)
  then show ?case
    by (simp add: parse_digits_append algebra_simps)
qed


lemma month_of_abbr_nth:
  assumes "1 \<le> m" "m \<le> 12"
  shows "month_of_abbr (month_abbrs ! (m - 1)) = Some m"
proof -
  from assms have "m = 1 \<or> m = 2 \<or> m = 3 \<or> m = 4 \<or> m = 5 \<or> m = 6 \<or> m = 7 \<or> m = 8
      \<or> m = 9 \<or> m = 10 \<or> m = 11 \<or> m = 12" by arith
  then show ?thesis
    by (elim disjE) (simp_all add: month_of_abbr_def month_abbrs_def py_simps)
qed

lemma length_month_abbrs_nth:
  "1 \<le> m \<Longrightarrow> m \<le> 12 \<Longrightarrow> length (month_abbrs ! (m - 1)) = 3"
  by (auto simp: month_abbrs_def nth_Cons' )

lemma days_in_month_le: "days_in_month y m \<le> 31"
  by (simp add: days_in_month_def)


text \<open>
  C24 (round trip): every date-time the \<^verbatim>\<open>datetime\<close> constructor accepts,
  printed in the NASA compact form, is read back by \<open>cd_to_datetime\<close> as
  itself.
\<close>

theorem cd_roundtrip:
  assumes v: "valid_datetime t"
  shows "cd_to_datetime (datetime_to_cd t) = Inr t"
proof -
  from v have m: "1 \<le> dt_month t" "dt_month t \<le> 12" and y: "dt_year t < 10 ^ 4"
    and d: "dt_day t < 10 ^ 2" and h: "dt_hour t < 10 ^ 2" and mi: "dt_minute t < 10 ^ 2"
    using days_in_month_le [of "dt_year t" "dt_month t"] by (auto simp: valid_datetime_def)
  have ma: "length (month_abbrs ! (dt_month t - Suc 0)) = 3"
    using length_month_abbrs_nth [OF m] by simp
  have mo: "month_of_abbr (month_abbrs ! (dt_month t - Suc 0)) = Some (dt_month t)"
    using month_of_abbr_nth [OF m] by simp
  have p: "parse_digits 0 (pad_nat 4 (dt_year t)) = Some (dt_year t)"
    "parse_digits 0 (pad_nat 2 (dt_day t)) = Some (dt_day t)"
    "parse_digits 0 (pad_nat 2 (dt_hour t)) = Some (dt_hour t)"
    "parse_digits 0 (pad_nat 2 (dt_minute t)) = Some (dt_minute t)"
    using parse_pad_nat [OF y] parse_pad_nat [OF d] parse_pad_nat [OF h] parse_pad_nat [OF mi]
    by simp_all
  have e: "\<lparr>dt_year = dt_year t, dt_month = dt_month t, dt_day = dt_day t,
      dt_hour = dt_hour t, dt_minute = dt_minute t\<rparr> = t"
    by (cases t) simp
  show ?thesis
    using ma mo p v
    by (simp add: cd_to_datetime_def datetime_to_cd_def nth_append e Let_def)
qed
subsection \<open>Witnesses\<close>


theorem cd_roundtrip_witness:
  "cd_to_datetime ''2020-Feb-29 12:30'' =
     Inr \<lparr>dt_year = 2020, dt_month = 2, dt_day = 29, dt_hour = 12, dt_minute = 30\<rparr>"
  using cd_roundtrip [of "\<lparr>dt_year = 2020, dt_month = 2, dt_day = 29, dt_hour = 12, dt_minute = 30\<rparr>"]
  by code_simp

end
