(* ===== verification/Models.thy ===== *)
theory Models
  imports DateTime
begin

text \<open>
  The entity model of \<^verbatim>\<open>models.py\<close>: \<^verbatim>\<open>NearEarthObject\<close> and
  \<^verbatim>\<open>CloseApproach\<close> as records, their constructors, \<^verbatim>\<open>fullname\<close> and the
  two \<^verbatim>\<open>serialize\<close> views the writers consume. The mutual references of the
  Python objects are kept in an explicit store: a database holds the NEOs and
  the approaches in two lists, a NEO's \<open>approaches\<close> are positions in the
  approach list and an approach's \<open>neo\<close> is a position in the NEO list, so
  object identity is list position and the aliasing the linkage pass creates
  is explicit.
\<close>

section \<open>Records\<close>

record near_earth_object =
  designation :: string
  name :: "string option"
  diameter :: flt
  hazardous :: bool
  approaches :: "nat list"

record close_approach =
  ca_designation :: string
  time :: datetime
  distance :: flt
  velocity :: flt
  neo :: "nat option"

section \<open>Constructors\<close>

text \<open>
  \<^verbatim>\<open>NearEarthObject.__init__\<close>: the diameter is \<^verbatim>\<open>diameter or float("nan")\<close>,
  so an absent diameter and a diameter of \<^verbatim>\<open>0.0\<close> both become NaN; the list of
  approaches starts empty.
\<close>

definition make_neo :: "string \<Rightarrow> string option \<Rightarrow> flt option \<Rightarrow> bool \<Rightarrow> near_earth_object" where
  "make_neo des nm diam haz =
     \<lparr>designation = des, name = nm, diameter = py_or_nan diam, hazardous = haz, approaches = []\<rparr>"

text \<open>
  \<^verbatim>\<open>CloseApproach.__init__\<close>: the time is parsed first (a malformed time
  raises before the object exists); distance and velocity are
  \<^verbatim>\<open>x if x else float("nan")\<close>; the back-reference is the optional keyword
  argument \<^verbatim>\<open>neo\<close>, absent in every call of the loaders.
\<close>

definition make_close_approach ::
  "string \<Rightarrow> string \<Rightarrow> flt option \<Rightarrow> flt option \<Rightarrow> nat option \<Rightarrow> py_error + close_approach" where
  "make_close_approach des t vel dst nref =
     (case cd_to_datetime t of
        Inl e \<Rightarrow> Inl e
      | Inr tm \<Rightarrow> Inr \<lparr>ca_designation = des, time = tm, distance = py_or_nan dst,
                       velocity = py_or_nan vel, neo = nref\<rparr>)"

section \<open>Views\<close>

text \<open>\<^verbatim>\<open>fullname\<close>: the designation, followed by the name when it is truthy.\<close>

definition fullname :: "near_earth_object \<Rightarrow> string" where
  "fullname n =
     (case name n of
        Some s \<Rightarrow> if s \<noteq> [] then designation n @ '' '' @ s else designation n
      | None \<Rightarrow> designation n)"

text \<open>
  The values a \<^verbatim>\<open>serialize\<close> dictionary holds and the writers emit, as JSON
  sees them; a dictionary is an association list (the first entry for a key
  is its value).
\<close>

datatype json = JStr string | JNull | JFloat flt | JBool bool | JObj "(string \<times> json) list"

type_synonym json_dict = "(string \<times> json) list"

definition neo_serialize :: "near_earth_object \<Rightarrow> json_dict" where
  "neo_serialize n =
     [(''designation'', JStr (designation n)),
      (''name'', (case name n of None \<Rightarrow> JNull | Some s \<Rightarrow> JStr s)),
      (''diameter_km'', JFloat (diameter n)),
      (''potentially_hazardous'', JBool (hazardous n))]"

definition time_str :: "close_approach \<Rightarrow> string" where
  "time_str a = datetime_to_str (time a)"

definition approach_serialize :: "close_approach \<Rightarrow> json_dict" where
  "approach_serialize a =
     [(''velocity_km_s'', JFloat (velocity a)),
      (''datetime_utc'', JStr (datetime_to_str (time a))),
      (''distance_au'', JFloat (distance a))]"

section \<open>Sample entities\<close>

text \<open>
  The entities of the specification's end-to-end example, and two more that
  exercise the edge cases (an approach of an unknown object, a name with an
  inner capital, an object without a name); the witnesses of the development evaluate on them.
\<close>

definition eros :: near_earth_object where
  "eros = make_neo ''433'' (Some ''Eros'') (Some (Fin 16.84)) False"

definition eros_1900 :: close_approach where
  "eros_1900 =
     \<lparr>ca_designation = ''433'',
      time = \<lparr>dt_year = 1900, dt_month = 1, dt_day = 1, dt_hour = 0, dt_minute = 0\<rparr>,
      distance = Fin 0.32, velocity = Fin 5.5, neo = None\<rparr>"

definition orphan_2020 :: close_approach where
  "orphan_2020 =
     \<lparr>ca_designation = ''2020 AB'',
      time = \<lparr>dt_year = 2020, dt_month = 2, dt_day = 29, dt_hour = 12, dt_minute = 30\<rparr>,
      distance = Fin 0.05, velocity = NaN, neo = None\<rparr>"

definition mcnaught :: near_earth_object where
  "mcnaught = make_neo ''1991 AB'' (Some ''McNaught'') None True"

definition unnamed_2020 :: near_earth_object where
  "unnamed_2020 = make_neo ''2020 AB'' None (Some (Fin 0.1)) False"

lemmas sample_defs = eros_def eros_1900_def orphan_2020_def mcnaught_def unnamed_2020_def make_neo_def

section \<open>Properties\<close>

text \<open>
  A fresh entity has no links yet: the loaders build every NEO with an empty
  list of approaches and every approach with no NEO, the state the linkage
  pass of the database expects.
\<close>

lemma make_neo_fresh [simp]: "approaches (make_neo des nm diam haz) = []"
  by (simp add: make_neo_def)

lemma make_close_approach_fresh:
  "make_close_approach des t vel dst None = Inr a \<Longrightarrow> neo a = None"
  by (auto simp: make_close_approach_def split: sum.splits)

lemma make_close_approach_time:
  "make_close_approach des t vel dst nref = Inr a \<Longrightarrow> cd_to_datetime t = Inr (time a)"
  by (auto simp: make_close_approach_def split: sum.splits)

end
