(* ===== verification/Database.thy ===== *)
theory Database
  imports Models
begin

text \<open>
  \<^verbatim>\<open>database.py\<close>: the \<^verbatim>\<open>NEODatabase\<close> state, its constructor (the
  designation index and the linkage pass), the two lookups and the query
  loop. The query loop is stated over any type \<open>'f\<close> of filters together with
  the function that calls a filter on an approach: the interface through which
  \<^verbatim>\<open>query\<close> uses the callables that \<^verbatim>\<open>filters.create_filters\<close> builds
  (theory \<open>Filters\<close> supplies the implementation).
\<close>

section \<open>State\<close>

text \<open>\<^verbatim>\<open>self._neos\<close> and \<^verbatim>\<open>self._approaches\<close>: the store of both kinds of objects.\<close>

record neo_database =
  db_neos :: "near_earth_object list"
  db_approaches :: "close_approach list"

type_synonym designation_map = "string \<rightharpoonup> nat"

section \<open>Construction\<close>

text \<open>
  \<^verbatim>\<open>designations_with_indices\<close>: one pass over \<^verbatim>\<open>enumerate(self._neos)\<close>,
  each entry overwriting any earlier one with the same designation.
\<close>

definition designation_index :: "near_earth_object list \<Rightarrow> designation_map" where
  "designation_index ns =
     foldl (\<lambda>m (i, n). m(designation n \<mapsto> i)) Map.empty (enumerate 0 ns)"

text \<open>
  One iteration of the linkage loop, for the approach at position \<open>j\<close>: if its
  designation is in the index, set \<^verbatim>\<open>approach.neo\<close> to that NEO and append
  the approach to the NEO's \<^verbatim>\<open>approaches\<close>; otherwise leave both alone.
\<close>

definition link_approach :: "designation_map \<Rightarrow> neo_database \<Rightarrow> nat \<Rightarrow> neo_database" where
  "link_approach idx d j =
     (let a = db_approaches d ! j in
      case idx (ca_designation a) of
        None \<Rightarrow> d
      | Some i \<Rightarrow>
          d\<lparr>db_approaches := (db_approaches d)[j := a\<lparr>neo := Some i\<rparr>],
            db_neos := (db_neos d)[i := (db_neos d ! i)\<lparr>approaches := approaches (db_neos d ! i) @ [j]\<rparr>]\<rparr>)"

text \<open>\<^verbatim>\<open>NEODatabase.__init__\<close>: build the index, then link every approach in order.\<close>

definition neo_database :: "near_earth_object list \<Rightarrow> close_approach list \<Rightarrow> neo_database" where
  "neo_database ns cas =
     (let idx = designation_index ns
      in foldl (link_approach idx) \<lparr>db_neos = ns, db_approaches = cas\<rparr> [0..<length cas])"

section \<open>Lookups\<close>

text \<open>
  \<^verbatim>\<open>get_neo_by_designation\<close> and \<^verbatim>\<open>get_neo_by_name\<close>: a linear scan that
  returns the first NEO whose designation equals \<^verbatim>\<open>designation.upper()\<close>,
  respectively whose name equals \<^verbatim>\<open>name.capitalize()\<close> (a NEO without a
  name has \<^verbatim>\<open>None\<close>, which equals no string).
\<close>

definition get_neo_by_designation :: "neo_database \<Rightarrow> string \<Rightarrow> near_earth_object option" where
  "get_neo_by_designation d des = find (\<lambda>n. designation n = py_upper des) (db_neos d)"

definition get_neo_by_name :: "neo_database \<Rightarrow> string \<Rightarrow> near_earth_object option" where
  "get_neo_by_name d nm = find (\<lambda>n. name n = Some (py_capitalize nm)) (db_neos d)"

section \<open>Query\<close>

text \<open>
  Following a back-reference: \<^verbatim>\<open>approach.neo\<close> is the NEO at that position
  of the store, or \<^verbatim>\<open>None\<close>.
\<close>

definition approach_neo :: "near_earth_object list \<Rightarrow> close_approach \<Rightarrow> near_earth_object option" where
  "approach_neo ns a = map_option (\<lambda>i. ns ! i) (neo a)"

text \<open>
  The interface between the query loop and the filters: calling filter \<open>f\<close> on
  an approach, with the NEO store for the back-reference, returns a boolean or
  raises.
\<close>

type_synonym 'f filter_call = "'f \<Rightarrow> near_earth_object list \<Rightarrow> close_approach \<Rightarrow> py_error + bool"

text \<open>
  \<^verbatim>\<open>check_approach_against_filters\<close>: every filter is called, in order, even
  after one has returned false (the loop never breaks); the flag
  \<^verbatim>\<open>match_filter\<close> records whether all returned true. An exception of any
  filter propagates at once.
\<close>

fun check_approach_against_filters ::
  "'f filter_call \<Rightarrow> near_earth_object list \<Rightarrow> close_approach \<Rightarrow> 'f list \<Rightarrow> bool \<Rightarrow> py_error + bool" where
  "check_approach_against_filters call ns a [] m = Inr m"
| "check_approach_against_filters call ns a (f # fs) m =
     (case call f ns a of
        Inl e \<Rightarrow> Inl e
      | Inr True \<Rightarrow> check_approach_against_filters call ns a fs m
      | Inr False \<Rightarrow> check_approach_against_filters call ns a fs False)"

text \<open>
  The generator body of \<^verbatim>\<open>query\<close> when filters are given: scan the approaches
  in stored order, yield each one that passes, and stop with the exception of
  the first check that raises.
\<close>

fun query_scan ::
  "'f filter_call \<Rightarrow> near_earth_object list \<Rightarrow> 'f list \<Rightarrow> close_approach list \<Rightarrow> close_approach gen" where
  "query_scan call ns fs [] = ([], None)"
| "query_scan call ns fs (a # as) =
     (case check_approach_against_filters call ns a fs True of
        Inl e \<Rightarrow> ([], Some e)
      | Inr True \<Rightarrow> gen_cons a (query_scan call ns fs as)
      | Inr False \<Rightarrow> query_scan call ns fs as)"

text \<open>\<^verbatim>\<open>query\<close>: an empty collection of filters is falsy and yields every approach.\<close>

definition query :: "'f filter_call \<Rightarrow> neo_database \<Rightarrow> 'f list \<Rightarrow> close_approach gen" where
  "query call d fs =
     (if fs \<noteq> [] then query_scan call (db_neos d) fs (db_approaches d)
      else (db_approaches d, None))"

section \<open>Reference definitions\<close>

text \<open>
  What the linkage pass promises, stated without the loop: each approach is
  relinked to the NEO the index names for its designation (or left alone), and
  each NEO gains, in input order, the positions of the approaches whose
  designation the index maps to it.
\<close>

definition relink :: "designation_map \<Rightarrow> close_approach \<Rightarrow> close_approach" where
  "relink idx a = (case idx (ca_designation a) of None \<Rightarrow> a | Some i \<Rightarrow> a\<lparr>neo := Some i\<rparr>)"

definition owned_by :: "designation_map \<Rightarrow> close_approach list \<Rightarrow> nat \<Rightarrow> nat \<Rightarrow> nat list" where
  "owned_by idx cas i n = filter (\<lambda>j. idx (ca_designation (cas ! j)) = Some i) [0..<n]"

text \<open>The state after the loop has linked the first \<open>n\<close> approaches.\<close>

definition link_upto ::
  "designation_map \<Rightarrow> near_earth_object list \<Rightarrow> close_approach list \<Rightarrow> nat \<Rightarrow> neo_database" where
  "link_upto idx ns cas n =
     \<lparr>db_neos = map (\<lambda>i. (ns ! i)\<lparr>approaches := approaches (ns ! i) @ owned_by idx cas i n\<rparr>)
                  [0..<length ns],
      db_approaches = map (relink idx) (take n cas) @ drop n cas\<rparr>"

definition linked_database :: "near_earth_object list \<Rightarrow> close_approach list \<Rightarrow> neo_database" where
  "linked_database ns cas = link_upto (designation_index ns) ns cas (length cas)"

text \<open>
  Entities as the loaders build them: no NEO has approaches, no approach has a
  NEO.
\<close>

definition fresh :: "near_earth_object list \<Rightarrow> close_approach list \<Rightarrow> bool" where
  "fresh ns cas \<longleftrightarrow> (\<forall>n\<in>set ns. approaches n = []) \<and> (\<forall>a\<in>set cas. neo a = None)"

text \<open>Every reference of the store points into it.\<close>

definition db_wf :: "neo_database \<Rightarrow> bool" where
  "db_wf d \<longleftrightarrow>
     (\<forall>a\<in>set (db_approaches d). \<forall>i. neo a = Some i \<longrightarrow> i < length (db_neos d)) \<and>
     (\<forall>n\<in>set (db_neos d). \<forall>j\<in>set (approaches n). j < length (db_approaches d))"

text \<open>
  The two directions of the association agree, and each NEO lists its
  approaches once each, in input order.
\<close>

definition links_consistent :: "neo_database \<Rightarrow> bool" where
  "links_consistent d \<longleftrightarrow>
     (\<forall>i<length (db_neos d). \<forall>j<length (db_approaches d).
        j \<in> set (approaches (db_neos d ! i)) \<longleftrightarrow> neo (db_approaches d ! j) = Some i) \<and>
     (\<forall>n\<in>set (db_neos d). sorted_wrt (<) (approaches n))"

text \<open>The first exception among the calls of the filters on one approach.\<close>

fun first_error :: "'f filter_call \<Rightarrow> near_earth_object list \<Rightarrow> close_approach \<Rightarrow> 'f list \<Rightarrow> py_error option" where
  "first_error call ns a [] = None"
| "first_error call ns a (f # fs) =
     (case call f ns a of Inl e \<Rightarrow> Some e | Inr _ \<Rightarrow> first_error call ns a fs)"

text \<open>No filter raises on any of the given approaches.\<close>

definition calls_total :: "'f filter_call \<Rightarrow> near_earth_object list \<Rightarrow> 'f list \<Rightarrow> close_approach list \<Rightarrow> bool" where
  "calls_total call ns fs as \<longleftrightarrow> (\<forall>a\<in>set as. \<forall>f\<in>set fs. \<exists>b. call f ns a = Inr b)"

text \<open>The approaches that pass every filter.\<close>

definition passes_all :: "'f filter_call \<Rightarrow> near_earth_object list \<Rightarrow> 'f list \<Rightarrow> close_approach \<Rightarrow> bool" where
  "passes_all call ns fs a \<longleftrightarrow> (\<forall>f\<in>set fs. call f ns a = Inr True)"

section \<open>Properties\<close>


lemma designation_index_snoc [link_simps]:
  "designation_index (ns @ [n]) = (designation_index ns)(designation n \<mapsto> length ns)"
  by (simp add: designation_index_def)

lemma designation_index_Nil [link_simps]: "designation_index [] = Map.empty"
  by (simp add: designation_index_def)

lemma designation_index_Some:
  "designation_index ns d = Some i \<longleftrightarrow>
     i < length ns \<and> designation (ns ! i) = d \<and>
     (\<forall>k. i < k \<and> k < length ns \<longrightarrow> designation (ns ! k) \<noteq> d)"
proof (induction ns arbitrary: i rule: rev_induct)
  case Nil
  then show ?case by (simp add: link_simps)
next
  case (snoc n ns)
  show ?case
  proof (cases "designation n = d")
    case True
    have "(\<forall>k. i < k \<and> k < length (ns @ [n]) \<longrightarrow> designation ((ns @ [n]) ! k) \<noteq> d)
          \<longleftrightarrow> length ns \<le> i"
    proof
      assume h: "\<forall>k. i < k \<and> k < length (ns @ [n]) \<longrightarrow> designation ((ns @ [n]) ! k) \<noteq> d"
      show "length ns \<le> i"
      proof (rule ccontr)
        assume "\<not> length ns \<le> i"
        then have "designation ((ns @ [n]) ! length ns) \<noteq> d"
          using h [rule_format, of "length ns"] by simp
        with True show False by simp
      qed
    qed auto
    with True show ?thesis
      by (auto simp: link_simps nth_append)
  next
    case False
    then have "designation ((ns @ [n]) ! k) \<noteq> d" if "k = length ns" for k
      using that by simp
    with False show ?thesis
      by (auto simp: link_simps nth_append snoc.IH less_Suc_eq)
  qed
qed

lemma owned_by_Suc:
  "owned_by idx cas i (Suc n) =
     owned_by idx cas i n @ (if idx (ca_designation (cas ! n)) = Some i then [n] else [])"
  by (simp add: owned_by_def)

lemma link_upto_0: "link_upto idx ns cas 0 = \<lparr>db_neos = ns, db_approaches = cas\<rparr>"
  by (simp add: link_upto_def owned_by_def map_nth)

lemma link_upto_step:
  assumes n: "n < length cas" and rng: "\<And>d i. idx d = Some i \<Longrightarrow> i < length ns"
  shows "link_approach idx (link_upto idx ns cas n) n = link_upto idx ns cas (Suc n)"
proof -
  let ?a = "cas ! n"
  have drop_n: "drop n cas = ?a # drop (Suc n) cas"
    using n by (rule Cons_nth_drop_Suc [symmetric])
  have take_Sn: "take (Suc n) cas = take n cas @ [?a]"
    using n by (rule take_Suc_conv_app_nth)
  have at_n: "db_approaches (link_upto idx ns cas n) ! n = ?a"
    using n by (simp add: link_upto_def nth_append min_def drop_n)
  show ?thesis
  proof (cases "idx (ca_designation ?a)")
    case None
    then have "link_approach idx (link_upto idx ns cas n) n = link_upto idx ns cas n"
      by (simp add: link_approach_def at_n)
    moreover have "link_upto idx ns cas n = link_upto idx ns cas (Suc n)"
      using None by (simp add: link_upto_def owned_by_Suc take_Sn drop_n relink_def)
    ultimately show ?thesis by simp
  next
    case (Some i)
    with rng have i: "i < length ns" by blast
    have neos: "(db_neos (link_upto idx ns cas n))[i := (db_neos (link_upto idx ns cas n) ! i)
        \<lparr>approaches := approaches (db_neos (link_upto idx ns cas n) ! i) @ [n]\<rparr>] =
        db_neos (link_upto idx ns cas (Suc n))"
      using i Some by (auto simp: link_upto_def owned_by_Suc intro!: nth_equalityI simp: nth_list_update)
    have aps: "(db_approaches (link_upto idx ns cas n))[n := ?a\<lparr>neo := Some i\<rparr>] =
        db_approaches (link_upto idx ns cas (Suc n))"
      using n Some by (simp add: link_upto_def take_Sn drop_n relink_def list_update_append min_def)
    have "link_approach idx (link_upto idx ns cas n) n =
        (link_upto idx ns cas n)\<lparr>db_approaches := db_approaches (link_upto idx ns cas (Suc n)),
          db_neos := db_neos (link_upto idx ns cas (Suc n))\<rparr>"
      using Some by (simp add: link_approach_def at_n neos aps)
    then show ?thesis by (simp add: link_upto_def)
  qed
qed

lemma link_fold:
  assumes "n \<le> length cas" and "\<And>d i. idx d = Some i \<Longrightarrow> i < length ns"
  shows "foldl (link_approach idx) \<lparr>db_neos = ns, db_approaches = cas\<rparr> [0..<n] = link_upto idx ns cas n"
  using assms
proof (induction n)
  case 0
  then show ?case by (simp add: link_upto_0)
next
  case (Suc n)
  then show ?case by (simp add: link_upto_step)
qed


lemma designation_index_None:
  "designation_index ns d = None \<longleftrightarrow> d \<notin> designation ` set ns"
  by (induction ns rule: rev_induct) (auto simp: link_simps)

lemma designation_index_range:
  "designation_index ns d = Some i \<Longrightarrow> i < length ns"
  by (simp add: designation_index_Some)

lemma neo_database_unfold: "neo_database ns cas = linked_database ns cas"
  unfolding neo_database_def linked_database_def Let_def
  by (rule link_fold) (auto intro: designation_index_range)

lemma linked_database_length [simp]:
  "length (db_neos (linked_database ns cas)) = length ns"
  "length (db_approaches (linked_database ns cas)) = length cas"
  by (simp_all add: linked_database_def link_upto_def)

lemma linked_database_nth [link_simps]:
  "i < length ns \<Longrightarrow> db_neos (linked_database ns cas) ! i =
     (ns ! i)\<lparr>approaches := approaches (ns ! i) @ owned_by (designation_index ns) cas i (length cas)\<rparr>"
  "j < length cas \<Longrightarrow> db_approaches (linked_database ns cas) ! j = relink (designation_index ns) (cas ! j)"
  by (simp_all add: linked_database_def link_upto_def)

text \<open>
  C1 (equivalence): the constructor's loop over the approaches computes the
  declarative linked state: every approach is relinked to the NEO that the
  designation index names for it, and NEO \<open>i\<close> gains, after the approaches
  it had, the positions of the approaches the index maps to \<open>i\<close>, in input
  order; nothing else changes.
\<close>

theorem neo_database_spec:
  "db_approaches (neo_database ns cas) = map (relink (designation_index ns)) cas \<and>
   length (db_neos (neo_database ns cas)) = length ns \<and>
   (\<forall>i<length ns. db_neos (neo_database ns cas) ! i =
      (ns ! i)\<lparr>approaches := approaches (ns ! i) @
         filter (\<lambda>j. designation_index ns (ca_designation (cas ! j)) = Some i) [0..<length cas]\<rparr>)"
  by (simp add: neo_database_unfold linked_database_def link_upto_def owned_by_def)

lemma set_owned_by:
  "j \<in> set (owned_by idx cas i n) \<longleftrightarrow> j < n \<and> idx (ca_designation (cas ! j)) = Some i"
  by (auto simp: owned_by_def)

lemma owned_by_nth_less:
  "k < length (owned_by idx cas i n) \<Longrightarrow> owned_by idx cas i n ! k < n"
  using nth_mem set_owned_by by blast

lemma neo_relink:
  "neo (relink idx a) = (case idx (ca_designation a) of None \<Rightarrow> neo a | Some i \<Rightarrow> Some i)"
  by (simp add: relink_def split: option.split)

text \<open>
  C2 (invariant): on entities as the loaders build them, the database after
  construction is well formed (every reference points into the store) and its
  links are consistent: approach \<open>j\<close> is in the list of NEO \<open>i\<close> exactly when
  its back-reference is \<open>i\<close>, and each list is strictly increasing.
\<close>

theorem neo_database_consistent:
  assumes "fresh ns cas"
  shows "db_wf (neo_database ns cas) \<and> links_consistent (neo_database ns cas)"
proof -
  let ?idx = "designation_index ns" and ?D = "linked_database ns cas"
  have nE: "approaches (ns ! i) = []" if "i < length ns" for i
    using assms that by (simp add: fresh_def)
  have aN: "neo (cas ! j) = None" if "j < length cas" for j
    using assms that by (simp add: fresh_def)
  have wf: "db_wf ?D"
    unfolding db_wf_def
    by (auto simp: in_set_conv_nth link_simps neo_relink nE aN set_owned_by split: option.splits)
       (use designation_index_range owned_by_nth_less in blast)+
  have lc: "links_consistent ?D"
    unfolding links_consistent_def
    by (auto simp: in_set_conv_nth link_simps neo_relink nE aN set_owned_by owned_by_def
             split: option.splits)
  from wf lc show ?thesis by (simp add: neo_database_unfold)
qed


lemma designation_index_distinct:
  "distinct (map designation ns) \<Longrightarrow> i < length ns \<Longrightarrow>
   designation_index ns (designation (ns ! i)) = Some i"
  by (auto simp: designation_index_Some distinct_conv_nth)

text \<open>
  C3 (functional): with unique designations, every approach whose designation
  is that of NEO \<open>i\<close> has its back-reference set to \<open>i\<close> and appears in the
  approaches of NEO \<open>i\<close> exactly once.
\<close>

theorem neo_database_links_unique:
  assumes "fresh ns cas" and "distinct (map designation ns)"
    and "i < length ns" and "j < length cas"
    and "designation (ns ! i) = ca_designation (cas ! j)"
  shows "neo (db_approaches (neo_database ns cas) ! j) = Some i \<and>
         count_list (approaches (db_neos (neo_database ns cas) ! i)) j = 1"
proof -
  have idx: "designation_index ns (ca_designation (cas ! j)) = Some i"
    using assms(2,3,5) designation_index_distinct by metis
  have "approaches (ns ! i) = []" using assms(1,3) by (simp add: fresh_def)
  with idx assms(3,4) show ?thesis
    by (simp add: neo_database_unfold link_simps neo_relink owned_by_def count_filter_upt)
qed

lemma neo_database_unowned:
  assumes "i < length ns" and "\<And>d. designation_index ns d \<noteq> Some i"
  shows "db_neos (neo_database ns cas) ! i = ns ! i"
proof -
  from assms(2) have "owned_by (designation_index ns) cas i (length cas) = []"
    by (simp add: owned_by_def filter_empty_conv)
  with assms(1) show ?thesis
    by (simp add: neo_database_unfold link_simps)
qed

text \<open>
  C14 (functional, duplicate designations): when a designation occurs twice in
  the NEO collection, the earlier NEO is never linked: the index keeps the last
  position, so the earlier object leaves construction unchanged.
\<close>

theorem neo_database_last_wins:
  assumes "i < k" and "k < length ns" and "designation (ns ! i) = designation (ns ! k)"
  shows "db_neos (neo_database ns cas) ! i = ns ! i"
proof (rule neo_database_unowned)
  show "i < length ns" using assms(1,2) by simp
  show "designation_index ns d \<noteq> Some i" for d
    using assms by (auto simp: designation_index_Some)
qed



text \<open>
  C15 (functional): an approach whose designation names no NEO stays unlinked
  (its back-reference stays \<open>None\<close>) and no NEO lists it.
\<close>

theorem neo_database_orphan:
  assumes "fresh ns cas" and "j < length cas" and "ca_designation (cas ! j) \<notin> designation ` set ns"
  shows "neo (db_approaches (neo_database ns cas) ! j) = None \<and>
         (\<forall>n\<in>set (db_neos (neo_database ns cas)). j \<notin> set (approaches n))"
proof -
  have idx: "designation_index ns (ca_designation (cas ! j)) = None"
    using assms(3) by (simp add: designation_index_None)
  have "neo (cas ! j) = None" using assms(1,2) by (simp add: fresh_def)
  moreover have notin: "j \<notin> set (approaches (db_neos (linked_database ns cas) ! i))"
    if "i < length ns" for i
    using assms(1) that idx by (auto simp: link_simps set_owned_by fresh_def)
  have "\<forall>n\<in>set (db_neos (linked_database ns cas)). j \<notin> set (approaches n)"
  proof
    fix n assume "n \<in> set (db_neos (linked_database ns cas))"
    then obtain i where "i < length ns" and "n = db_neos (linked_database ns cas) ! i"
      by (auto simp: in_set_conv_nth)
    with notin show "j \<notin> set (approaches n)" by simp
  qed
  ultimately show ?thesis
    using assms(2) idx by (simp add: neo_database_unfold link_simps neo_relink)
qed

lemma neo_database_designations [simp]:
  "map designation (db_neos (neo_database ns cas)) = map designation ns"
  by (rule nth_equalityI) (simp_all add: neo_database_unfold link_simps)

text \<open>
  C11 (functional): with unique designations, \<open>get_neo_by_designation\<close> returns
  a NEO exactly when it is in the store and its designation is the upper-cased
  query.
\<close>

theorem get_neo_by_designation_unique:
  assumes "distinct (map designation (db_neos d))"
  shows "get_neo_by_designation d des = Some n \<longleftrightarrow>
         n \<in> set (db_neos d) \<and> designation n = py_upper des"
  using assms by (simp add: get_neo_by_designation_def find_distinct_key)

text \<open>
  C12 (error/absence): \<open>get_neo_by_designation\<close> returns \<open>None\<close> exactly when no
  NEO has the upper-cased query as its designation.
\<close>

theorem get_neo_by_designation_None:
  "get_neo_by_designation d des = None \<longleftrightarrow> (\<forall>n\<in>set (db_neos d). designation n \<noteq> py_upper des)"
  by (auto simp: get_neo_by_designation_def find_None_iff)

text \<open>
  C13 (divergence between the components, duplicate designations): when a
  designation occurs twice, \<open>get_neo_by_designation\<close> returns the first NEO that
  carries it, while the linkage attached every approach to the last one: the
  NEO returned has none of the approaches of its designation.
\<close>

theorem duplicate_lookup_unlinked:
  assumes "i < k" and "k < length ns" and "designation (ns ! i) = py_upper des"
    and "designation (ns ! k) = py_upper des"
    and "\<forall>j<i. designation (ns ! j) \<noteq> py_upper des"
  shows "get_neo_by_designation (neo_database ns cas) des = Some (ns ! i)"
proof -
  let ?D = "neo_database ns cas"
  have "designation_index ns d \<noteq> Some i" for d
    using assms(1-4) by (auto simp: designation_index_Some)
  then have untouched: "db_neos ?D ! i = ns ! i"
    using assms(1,2) by (intro neo_database_unowned) simp_all
  have des: "designation (db_neos ?D ! j) = designation (ns ! j)" if "j < length ns" for j
    using that neo_database_designations [of ns cas] by (metis length_map nth_map)
  have len: "length (db_neos ?D) = length ns"
    using neo_database_designations [of ns cas] by (metis length_map)
  show ?thesis
    unfolding get_neo_by_designation_def find_Some_iff
    using assms untouched des len by (intro exI [of _ i]) auto
qed

lemma py_lower_char_idem [simp]: "py_lower_char (py_lower_char c) = py_lower_char c"
  by (simp add: py_lower_char_def)

text \<open>
  C16 (functional, divergence from the specification): \<^verbatim>\<open>str.capitalize\<close>
  lower-cases every character after the first, so a NEO whose name has an
  upper-case letter after its first character is never returned by
  \<open>get_neo_by_name\<close>, whatever the query.
\<close>

theorem get_neo_by_name_misses_inner_capitals:
  assumes "name n = Some s" and "c \<in> set (tl s)" and "py_lower_char c \<noteq> c"
  shows "get_neo_by_name d q \<noteq> Some n"
proof
  assume "get_neo_by_name d q = Some n"
  then have "name n = Some (py_capitalize q)"
    by (auto simp: get_neo_by_name_def dest: find_Some_iff [THEN iffD1])
  with assms(1) have "s = py_capitalize q" by simp
  with assms(2) have "\<exists>c'. c = py_lower_char c'"
    by (cases q) auto
  with assms(3) show False by auto
qed


lemma check_approach_against_filters_eq:
  "check_approach_against_filters call ns a fs m =
     (case first_error call ns a fs of
        Some e \<Rightarrow> Inl e
      | None \<Rightarrow> Inr (m \<and> passes_all call ns fs a))"
proof (induction fs arbitrary: m)
  case Nil
  then show ?case by (simp add: passes_all_def)
next
  case (Cons f fs)
  then show ?case
    by (auto simp: passes_all_def split: sum.split bool.split option.split)
qed

text \<open>
  C6 (functional, every branch): the check raises exactly the first exception
  among the calls of all the filters, even when an earlier filter has already
  returned false; when none raises it returns whether every filter returned
  true.
\<close>

theorem check_approach_against_filters_spec:
  "(check_approach_against_filters call ns a fs True = Inl e \<longleftrightarrow> first_error call ns a fs = Some e) \<and>
   (check_approach_against_filters call ns a fs True = Inr b \<longleftrightarrow>
      first_error call ns a fs = None \<and> b = passes_all call ns fs a)"
  by (auto simp: check_approach_against_filters_eq split: option.split)

lemma first_error_None_iff:
  "first_error call ns a fs = None \<longleftrightarrow> (\<forall>f\<in>set fs. \<exists>b. call f ns a = Inr b)"
  by (induction fs) (auto split: sum.split)

text \<open>
  The scan over a block of approaches on which no filter raises yields the
  block's passing approaches and then continues with the rest: the one
  induction the query properties share.
\<close>

lemma query_scan_append_total:
  "calls_total call ns fs xs \<Longrightarrow>
   query_scan call ns fs (xs @ ys) =
     (filter (passes_all call ns fs) xs @ fst (query_scan call ns fs ys), snd (query_scan call ns fs ys))"
proof (induction xs)
  case Nil
  then show ?case by simp
next
  case (Cons x xs)
  then have "first_error call ns x fs = None" and "calls_total call ns fs xs"
    by (auto simp: calls_total_def first_error_None_iff)
  with Cons.IH show ?case
    by (auto simp: check_approach_against_filters_eq gen_cons_def)
qed

lemma query_scan_total:
  "calls_total call ns fs as \<Longrightarrow> query_scan call ns fs as = (filter (passes_all call ns fs) as, None)"
  using query_scan_append_total [of call ns fs as "[]"] by simp

text \<open>
  C5 (refinement): when no filter raises on any stored approach, the query
  generator yields exactly the stored approaches that pass every filter, in
  stored order, and stops normally; with no filters it yields them all.
\<close>

theorem query_filters:
  assumes "calls_total call (db_neos d) fs (db_approaches d)"
  shows "query call d fs = (filter (passes_all call (db_neos d) fs) (db_approaches d), None)"
  using assms by (simp add: query_def query_scan_total passes_all_def)

text \<open>
  C9 (error): the query generator yields the passing approaches before the
  first approach on which a filter raises, then raises that exception.
\<close>

theorem query_raises_first_error:
  assumes "db_approaches d = xs @ a # ys" and "fs \<noteq> []"
    and "calls_total call (db_neos d) fs xs" and "first_error call (db_neos d) a fs = Some e"
  shows "query call d fs = (filter (passes_all call (db_neos d) fs) xs, Some e)"
proof -
  have "query_scan call (db_neos d) fs (a # ys) = ([], Some e)"
    using assms(4) by (simp add: check_approach_against_filters_eq)
  with query_scan_append_total [OF assms(3), of "a # ys"] assms(1,2) show ?thesis
    by (simp add: query_def)
qed

text \<open>
  C38 (liveness, progress of the generator): as long as no filter raises, the
  query generator goes on yielding: for every initial block of the stored
  approaches on which no filter raises, the passing approaches of the block
  are delivered, in stored order, as a prefix of what the generator yields,
  whatever comes after the block.
\<close>

theorem query_progress:
  assumes "calls_total call (db_neos d) fs (take k (db_approaches d))"
  shows "prefix (filter (passes_all call (db_neos d) fs) (take k (db_approaches d))) (fst (query call d fs))"
proof (cases "fs = []")
  case True
  then show ?thesis
    by (simp add: query_def passes_all_def take_is_prefix)
next
  case False
  have "query_scan call (db_neos d) fs (db_approaches d) =
      (filter (passes_all call (db_neos d) fs) (take k (db_approaches d)) @
         fst (query_scan call (db_neos d) fs (drop k (db_approaches d))),
       snd (query_scan call (db_neos d) fs (drop k (db_approaches d))))"
    using query_scan_append_total [OF assms, of "drop k (db_approaches d)"] by simp
  with False show ?thesis
    by (simp add: query_def)
qed

lemma first_error_append:
  "first_error call ns a (fs @ gs) =
     (case first_error call ns a fs of Some e \<Rightarrow> Some e | None \<Rightarrow> first_error call ns a gs)"
  by (induction fs) (auto split: sum.split option.split)

lemma passes_all_append:
  "passes_all call ns (fs @ gs) a \<longleftrightarrow> passes_all call ns fs a \<and> passes_all call ns gs a"
  by (auto simp: passes_all_def)

lemma calls_total_append:
  "calls_total call ns (fs @ gs) as \<longleftrightarrow> calls_total call ns fs as \<and> calls_total call ns gs as"
  by (auto simp: calls_total_def)

text \<open>
  C10 (monotonicity): adding filters can only remove approaches from the
  result: the result for \<open>fs @ gs\<close> is a subsequence of the result for \<open>fs\<close>.
\<close>

theorem query_monotone:
  assumes "calls_total call (db_neos d) (fs @ gs) (db_approaches d)"
  shows "subseq (fst (query call d (fs @ gs))) (fst (query call d fs))"
proof -
  let ?P = "passes_all call (db_neos d) (fs @ gs)" and ?Q = "passes_all call (db_neos d) fs"
  have q1: "query call d (fs @ gs) = (filter ?P (db_approaches d), None)"
    using assms by (simp add: query_def query_scan_total passes_all_def)
  have q2: "query call d fs = (filter ?Q (db_approaches d), None)"
    using assms by (simp add: query_def query_scan_total passes_all_def calls_total_append)
  have eq: "filter ?P (db_approaches d) = filter ?P (filter ?Q (db_approaches d))"
    by (auto simp: passes_all_def intro: filter_cong)
  show ?thesis
    unfolding q1 q2 fst_conv eq by (rule subseq_filter_left)
qed

subsection \<open>Witnesses\<close>

text \<open>
  Each theorem above with a hypothesis, applied to the sample entities of
  theory \<open>Models\<close>, where the hypothesis holds.
\<close>

lemmas eval_db = neo_database_def designation_index_def link_approach_def sample_defs

theorem neo_database_spec_witness:
  "db_neos (neo_database [eros, mcnaught] [orphan_2020, eros_1900]) ! 0 = eros\<lparr>approaches := [1]\<rparr>"
  using neo_database_spec [of "[eros, mcnaught]" "[orphan_2020, eros_1900]"]
  by (simp add: eval_db py_simps)

theorem neo_database_consistent_witness:
  "fresh [eros] [eros_1900, orphan_2020] \<and>
   db_wf (neo_database [eros] [eros_1900, orphan_2020]) \<and>
   links_consistent (neo_database [eros] [eros_1900, orphan_2020])"
  using neo_database_consistent [of "[eros]" "[eros_1900, orphan_2020]"]
  by (simp add: fresh_def sample_defs)

theorem neo_database_links_unique_witness:
  "neo (db_approaches (neo_database [eros] [eros_1900, orphan_2020]) ! 0) = Some 0 \<and>
   count_list (approaches (db_neos (neo_database [eros] [eros_1900, orphan_2020]) ! 0)) 0 = 1"
  using neo_database_links_unique [of "[eros]" "[eros_1900, orphan_2020]" 0 0]
  by (simp add: fresh_def sample_defs)

theorem neo_database_last_wins_witness:
  "db_neos (neo_database [eros, eros] [eros_1900]) ! 0 = eros"
  using neo_database_last_wins [of 0 1 "[eros, eros]" "[eros_1900]"] by simp

theorem neo_database_orphan_witness:
  "neo (db_approaches (neo_database [eros] [eros_1900, orphan_2020]) ! 1) = None \<and>
   1 \<notin> set (approaches (db_neos (neo_database [eros] [eros_1900, orphan_2020]) ! 0))"
  using neo_database_orphan [of "[eros]" "[eros_1900, orphan_2020]" 1]
  by (simp add: fresh_def eval_db)

theorem get_neo_by_designation_unique_witness:
  "get_neo_by_designation (neo_database [eros, mcnaught] [eros_1900]) ''1991 ab'' =
   Some (db_neos (neo_database [eros, mcnaught] [eros_1900]) ! 1)"
  using get_neo_by_designation_unique [of "neo_database [eros, mcnaught] [eros_1900]" "''1991 ab''"
      "db_neos (neo_database [eros, mcnaught] [eros_1900]) ! 1"]
  by (simp add: eval_db py_simps)

theorem get_neo_by_designation_None_witness:
  "get_neo_by_designation (neo_database [eros] [eros_1900]) ''2020 ab'' = None"
  using get_neo_by_designation_None [of "neo_database [eros] [eros_1900]" "''2020 ab''"]
  by (simp add: eval_db py_simps)

theorem get_neo_by_name_misses_inner_capitals_witness:
  "get_neo_by_name (neo_database [eros, mcnaught] []) ''McNaught'' \<noteq> Some mcnaught"
  using get_neo_by_name_misses_inner_capitals [of mcnaught "''McNaught''" "CHR ''N''"]
  by (simp add: sample_defs py_simps)

theorem check_approach_against_filters_spec_witness:
  "check_approach_against_filters (\<lambda>f ns a. f a) [] eros_1900
     [\<lambda>a. Inr False, \<lambda>a. Inl AttributeError] True = Inl AttributeError"
  using check_approach_against_filters_spec [where call = "\<lambda>f ns a. f a" and ns = "[]"
      and a = eros_1900 and fs = "[\<lambda>a. Inr False, \<lambda>a. Inl AttributeError]" and e = AttributeError]
  by simp

theorem query_filters_witness:
  "query (\<lambda>f ns a. Inr (f a)) (neo_database [eros] [eros_1900, orphan_2020])
     [\<lambda>a. apply_op_flt OpLe (distance a) (Fin 0.1)] = ([orphan_2020], None)"
  using query_filters [of "\<lambda>f ns a. Inr (f a)" "neo_database [eros] [eros_1900, orphan_2020]"
      "[\<lambda>a. apply_op_flt OpLe (distance a) (Fin 0.1)]"]
  by (simp add: calls_total_def passes_all_def eval_db)

theorem query_raises_first_error_witness:
  "query (\<lambda>f ns a. f a) \<lparr>db_neos = [eros], db_approaches = [eros_1900\<lparr>neo := Some 0\<rparr>, orphan_2020]\<rparr>
     [\<lambda>a. if neo a = None then Inl AttributeError else Inr True] =
   ([eros_1900\<lparr>neo := Some 0\<rparr>], Some AttributeError)"
  using query_raises_first_error [of "\<lparr>db_neos = [eros], db_approaches = [eros_1900\<lparr>neo := Some 0\<rparr>, orphan_2020]\<rparr>"
      "[eros_1900\<lparr>neo := Some 0\<rparr>]" orphan_2020 "[]" "[\<lambda>a. if neo a = None then Inl AttributeError else Inr True]"
      "\<lambda>f ns a. f a" AttributeError]
  by (auto simp: calls_total_def passes_all_def sample_defs)

theorem query_monotone_witness:
  "subseq (fst (query (\<lambda>f ns a. Inr (f a)) (neo_database [eros] [eros_1900, orphan_2020])
              [\<lambda>a. True, \<lambda>a. apply_op_flt OpLe (distance a) (Fin 0.1)]))
          (fst (query (\<lambda>f ns a. Inr (f a)) (neo_database [eros] [eros_1900, orphan_2020]) [\<lambda>a. True]))"
  using query_monotone [of "\<lambda>f ns a. Inr (f a)" "neo_database [eros] [eros_1900, orphan_2020]"
      "[\<lambda>a. True]" "[\<lambda>a. apply_op_flt OpLe (distance a) (Fin 0.1)]"]
  by (simp add: calls_total_def)

theorem duplicate_lookup_unlinked_witness:
  "get_neo_by_designation (neo_database [eros, eros] [eros_1900]) ''433'' = Some eros \<and>
   approaches (db_neos (neo_database [eros, eros] [eros_1900]) ! 1) = [0]"
  using duplicate_lookup_unlinked [of 0 1 "[eros, eros]" "''433''" "[eros_1900]"]
  by (simp add: eval_db py_simps)

theorem query_progress_witness:
  "calls_total (\<lambda>f ns a. f a) [eros] [\<lambda>a. if neo a = None then Inl AttributeError else Inr True]
     (take 1 [eros_1900\<lparr>neo := Some 0\<rparr>, orphan_2020]) \<and>
   prefix [eros_1900\<lparr>neo := Some 0\<rparr>]
     (fst (query (\<lambda>f ns a. f a) \<lparr>db_neos = [eros], db_approaches = [eros_1900\<lparr>neo := Some 0\<rparr>, orphan_2020]\<rparr>
        [\<lambda>a. if neo a = None then Inl AttributeError else Inr True]))"
  using query_progress [of "\<lambda>f ns a. f a" "\<lparr>db_neos = [eros], db_approaches = [eros_1900\<lparr>neo := Some 0\<rparr>, orphan_2020]\<rparr>"
      "[\<lambda>a. if neo a = None then Inl AttributeError else Inr True]" 1]
  by (auto simp: calls_total_def passes_all_def)

end
