(* ===== verification/Filters.thy ===== *)
theory Filters
  imports Database
begin

text \<open>
  \<^verbatim>\<open>filters.py\<close>: the \<^verbatim>\<open>AttributeFilter\<close> class hierarchy as one datatype
  with a constructor per class (each holding the comparator and the reference
  value the constructor stores), \<^verbatim>\<open>__call__\<close> with each subclass's
  \<^verbatim>\<open>get\<close>, \<^verbatim>\<open>create_filters\<close> and \<^verbatim>\<open>limit\<close>. \<open>call_filter\<close> is the
  implementation of the interface \<open>filter_call\<close> that the query loop of
  theory \<open>Database\<close> is stated over.
\<close>

section \<open>Filters\<close>

text \<open>
  The reference value of the base class is any of the three kinds of value a
  subclass compares; the subclasses hold the kind their attribute has, which
  is what \<^verbatim>\<open>create_filters\<close> passes.
\<close>

datatype filter_value = FloatValue flt | BoolValue bool | DateValue date

datatype attribute_filter =
    AttributeFilter comparator filter_value
  | DistanceFilter comparator flt
  | DiameterFilter comparator flt
  | VelocityFilter comparator flt
  | HazardousFilter comparator bool
  | DateFilter comparator date

text \<open>
  \<^verbatim>\<open>filter(approach)\<close> is \<^verbatim>\<open>self.op(self.get(approach), self.value)\<close>:
  the base class's \<^verbatim>\<open>get\<close> raises \<open>UnsupportedCriterionError\<close>; the diameter
  and hazardous filters read the linked NEO and raise \<open>AttributeError\<close> when
  \<^verbatim>\<open>approach.neo\<close> is \<^verbatim>\<open>None\<close>; the date filter compares the calendar date of
  the approach time.
\<close>

fun call_filter :: "attribute_filter filter_call" where
  "call_filter (AttributeFilter c v) ns a = Inl UnsupportedCriterionError"
| "call_filter (DistanceFilter c v) ns a = Inr (apply_op_flt c (distance a) v)"
| "call_filter (DiameterFilter c v) ns a =
     (case approach_neo ns a of
        None \<Rightarrow> Inl AttributeError
      | Some n \<Rightarrow> Inr (apply_op_flt c (diameter n) v))"
| "call_filter (VelocityFilter c v) ns a = Inr (apply_op_flt c (velocity a) v)"
| "call_filter (HazardousFilter c v) ns a =
     (case approach_neo ns a of
        None \<Rightarrow> Inl AttributeError
      | Some n \<Rightarrow> Inr (apply_op c (hazardous n) v))"
| "call_filter (DateFilter c v) ns a = Inr (apply_op c (datetime_date (time a)) v)"

section \<open>Building the filters\<close>

text \<open>The keyword arguments of \<^verbatim>\<open>create_filters\<close>; \<^verbatim>\<open>None\<close> is absent.\<close>

record filter_criteria =
  crit_date :: "date option"
  crit_start_date :: "date option"
  crit_end_date :: "date option"
  crit_distance_min :: "flt option"
  crit_distance_max :: "flt option"
  crit_velocity_min :: "flt option"
  crit_velocity_max :: "flt option"
  crit_diameter_min :: "flt option"
  crit_diameter_max :: "flt option"
  crit_hazardous :: "bool option"

definition no_criteria :: filter_criteria where
  "no_criteria =
     \<lparr>crit_date = None, crit_start_date = None, crit_end_date = None,
      crit_distance_min = None, crit_distance_max = None,
      crit_velocity_min = None, crit_velocity_max = None,
      crit_diameter_min = None, crit_diameter_max = None, crit_hazardous = None\<rparr>"

text \<open>
  \<^verbatim>\<open>if x: specified_filters.append(mk(x))\<close>: a filter for an argument that is
  present and truthy. A date is always truthy; a float is falsy when it is
  \<^verbatim>\<open>0.0\<close>.
\<close>

definition when_truthy :: "('a \<Rightarrow> bool) \<Rightarrow> 'a option \<Rightarrow> ('a \<Rightarrow> attribute_filter) \<Rightarrow> attribute_filter list" where
  "when_truthy t x mk = (case x of Some v \<Rightarrow> if t v then [mk v] else [] | None \<Rightarrow> [])"

text \<open>
  \<^verbatim>\<open>create_filters\<close>, in the order of the source: dates, velocities,
  distances, the hazardous flag (tested with \<^verbatim>\<open>is not None\<close>, so \<^verbatim>\<open>False\<close>
  counts), diameters.
\<close>

definition create_filters :: "filter_criteria \<Rightarrow> attribute_filter list" where
  "create_filters c =
     when_truthy (\<lambda>_. True) (crit_date c) (DateFilter OpEq) @
     when_truthy (\<lambda>_. True) (crit_start_date c) (DateFilter OpGe) @
     when_truthy (\<lambda>_. True) (crit_end_date c) (DateFilter OpLe) @
     when_truthy py_truthy_flt (crit_velocity_min c) (VelocityFilter OpGe) @
     when_truthy py_truthy_flt (crit_velocity_max c) (VelocityFilter OpLe) @
     when_truthy py_truthy_flt (crit_distance_min c) (DistanceFilter OpGe) @
     when_truthy py_truthy_flt (crit_distance_max c) (DistanceFilter OpLe) @
     when_truthy (\<lambda>_. True) (crit_hazardous c) (HazardousFilter OpEq) @
     when_truthy py_truthy_flt (crit_diameter_min c) (DiameterFilter OpGe) @
     when_truthy py_truthy_flt (crit_diameter_max c) (DiameterFilter OpLe)"

section \<open>Limiting\<close>

text \<open>
  \<^verbatim>\<open>limit\<close>: \<^verbatim>\<open>n == 0 or n is None\<close> returns the iterator itself;
  otherwise the first \<open>n\<close> items are pulled into a list.
\<close>

definition limit :: "'a gen \<Rightarrow> int option \<Rightarrow> 'a gen" where
  "limit g n = (case n of None \<Rightarrow> g | Some k \<Rightarrow> if k = 0 then g else islice_list g k)"

section \<open>The criteria as the specification states them\<close>

text \<open>
  An optional bound holds when it is absent or when the attribute satisfies
  it; comparisons with NaN fail, as in the code.
\<close>

definition opt_holds :: "('a \<Rightarrow> 'b \<Rightarrow> bool) \<Rightarrow> 'b \<Rightarrow> 'a option \<Rightarrow> bool" where
  "opt_holds P x v = (case v of None \<Rightarrow> True | Some r \<Rightarrow> P r x)"

definition criteria_hold :: "filter_criteria \<Rightarrow> near_earth_object \<Rightarrow> close_approach \<Rightarrow> bool" where
  "criteria_hold c n a \<longleftrightarrow>
     opt_holds (\<lambda>r x. x = r) (datetime_date (time a)) (crit_date c) \<and>
     opt_holds (\<lambda>r x. r \<le> x) (datetime_date (time a)) (crit_start_date c) \<and>
     opt_holds (\<lambda>r x. x \<le> r) (datetime_date (time a)) (crit_end_date c) \<and>
     opt_holds (\<lambda>r x. apply_op_flt OpGe x r) (velocity a) (crit_velocity_min c) \<and>
     opt_holds (\<lambda>r x. apply_op_flt OpLe x r) (velocity a) (crit_velocity_max c) \<and>
     opt_holds (\<lambda>r x. apply_op_flt OpGe x r) (distance a) (crit_distance_min c) \<and>
     opt_holds (\<lambda>r x. apply_op_flt OpLe x r) (distance a) (crit_distance_max c) \<and>
     opt_holds (\<lambda>r x. x = r) (hazardous n) (crit_hazardous c) \<and>
     opt_holds (\<lambda>r x. apply_op_flt OpGe x r) (diameter n) (crit_diameter_min c) \<and>
     opt_holds (\<lambda>r x. apply_op_flt OpLe x r) (diameter n) (crit_diameter_max c)"

text \<open>Every numeric bound that is given is truthy (non-zero).\<close>

definition bounds_nonzero :: "filter_criteria \<Rightarrow> bool" where
  "bounds_nonzero c \<longleftrightarrow>
     (\<forall>v\<in>set [crit_velocity_min c, crit_velocity_max c, crit_distance_min c,
              crit_distance_max c, crit_diameter_min c, crit_diameter_max c].
        \<forall>x. v = Some x \<longrightarrow> py_truthy_flt x)"

section \<open>Properties\<close>

lemma opt_holds_iff: "opt_holds P x v \<longleftrightarrow> (\<forall>r. v = Some r \<longrightarrow> P r x)"
  by (cases v) (simp_all add: opt_holds_def)

lemma when_truthy_no_error:
  "first_error call ns a (when_truthy t x mk) = None" if "\<And>r. \<exists>b. call (mk r) ns a = Inr b"
proof (cases x)
  case None
  then show ?thesis by (simp add: when_truthy_def)
next
  case (Some r)
  from that obtain b where "call (mk r) ns a = Inr b" by blast
  with Some show ?thesis by (simp add: when_truthy_def)
qed

lemma when_truthy_passes:
  "passes_all call ns (when_truthy t x mk) a \<longleftrightarrow> (\<forall>r. x = Some r \<longrightarrow> t r \<longrightarrow> call (mk r) ns a = Inr True)"
  by (cases x) (simp_all add: when_truthy_def passes_all_def)

lemma when_truthy_piece:
  assumes "\<forall>r. x = Some r \<longrightarrow> t r" and "\<forall>r. call (mk r) ns a = Inr (P r y)"
  shows "passes_all call ns (when_truthy t x mk) a = opt_holds P y x"
  using assms by (cases x) (simp_all add: when_truthy_def passes_all_def opt_holds_def)

lemma create_filters_passes:
  assumes "bounds_nonzero c" and "approach_neo ns a = Some n"
  shows "first_error call_filter ns a (create_filters c) = None \<and>
         passes_all call_filter ns (create_filters c) a = criteria_hold c n a"
proof
  show "first_error call_filter ns a (create_filters c) = None"
    using assms(2) by (simp add: create_filters_def first_error_append when_truthy_no_error)
  from assms(1) have nz:
    "\<forall>r. crit_velocity_min c = Some r \<longrightarrow> py_truthy_flt r"
    "\<forall>r. crit_velocity_max c = Some r \<longrightarrow> py_truthy_flt r"
    "\<forall>r. crit_distance_min c = Some r \<longrightarrow> py_truthy_flt r"
    "\<forall>r. crit_distance_max c = Some r \<longrightarrow> py_truthy_flt r"
    "\<forall>r. crit_diameter_min c = Some r \<longrightarrow> py_truthy_flt r"
    "\<forall>r. crit_diameter_max c = Some r \<longrightarrow> py_truthy_flt r"
    by (simp_all add: bounds_nonzero_def)
  let ?p = "passes_all call_filter ns"
  have h:
    "?p (when_truthy (\<lambda>_. True) (crit_date c) (DateFilter OpEq)) a =
       opt_holds (\<lambda>r x. x = r) (datetime_date (time a)) (crit_date c)"
    "?p (when_truthy (\<lambda>_. True) (crit_start_date c) (DateFilter OpGe)) a =
       opt_holds (\<lambda>r x. r \<le> x) (datetime_date (time a)) (crit_start_date c)"
    "?p (when_truthy (\<lambda>_. True) (crit_end_date c) (DateFilter OpLe)) a =
       opt_holds (\<lambda>r x. x \<le> r) (datetime_date (time a)) (crit_end_date c)"
    "?p (when_truthy py_truthy_flt (crit_velocity_min c) (VelocityFilter OpGe)) a =
       opt_holds (\<lambda>r x. apply_op_flt OpGe x r) (velocity a) (crit_velocity_min c)"
    "?p (when_truthy py_truthy_flt (crit_velocity_max c) (VelocityFilter OpLe)) a =
       opt_holds (\<lambda>r x. apply_op_flt OpLe x r) (velocity a) (crit_velocity_max c)"
    "?p (when_truthy py_truthy_flt (crit_distance_min c) (DistanceFilter OpGe)) a =
       opt_holds (\<lambda>r x. apply_op_flt OpGe x r) (distance a) (crit_distance_min c)"
    "?p (when_truthy py_truthy_flt (crit_distance_max c) (DistanceFilter OpLe)) a =
       opt_holds (\<lambda>r x. apply_op_flt OpLe x r) (distance a) (crit_distance_max c)"
    "?p (when_truthy (\<lambda>_. True) (crit_hazardous c) (HazardousFilter OpEq)) a =
       opt_holds (\<lambda>r x. x = r) (hazardous n) (crit_hazardous c)"
    "?p (when_truthy py_truthy_flt (crit_diameter_min c) (DiameterFilter OpGe)) a =
       opt_holds (\<lambda>r x. apply_op_flt OpGe x r) (diameter n) (crit_diameter_min c)"
    "?p (when_truthy py_truthy_flt (crit_diameter_max c) (DiameterFilter OpLe)) a =
       opt_holds (\<lambda>r x. apply_op_flt OpLe x r) (diameter n) (crit_diameter_max c)"
    using nz assms(2) by (auto intro!: when_truthy_piece)
  show "?p (create_filters c) a = criteria_hold c n a"
    unfolding create_filters_def passes_all_append criteria_hold_def h ..
qed

text \<open>
  C7 (refinement): when every numeric bound given is non-zero and the approach
  is linked, the filters \<open>create_filters\<close> builds accept the approach exactly
  when it meets every given criterion, and none of them raises.
\<close>

theorem create_filters_correct:
  assumes "bounds_nonzero c" and "approach_neo ns a = Some n"
  shows "check_approach_against_filters call_filter ns a (create_filters c) True = Inr (criteria_hold c n a)"
  using create_filters_passes [OF assms] by (simp add: check_approach_against_filters_eq)

text \<open>
  C8 (error, every branch): calling a filter raises exactly in two cases: the
  base class, whose \<open>get\<close> raises \<open>UnsupportedCriterionError\<close>, and a diameter or
  hazardous filter on an approach without a NEO, which raises
  \<open>AttributeError\<close>.
\<close>

theorem call_filter_raises:
  "call_filter f ns a = Inl e \<longleftrightarrow>
     (\<exists>c v. f = AttributeFilter c v) \<and> e = UnsupportedCriterionError \<or>
     ((\<exists>c v. f = DiameterFilter c v) \<or> (\<exists>c v. f = HazardousFilter c v)) \<and>
       neo a = None \<and> e = AttributeError"
  by (cases f) (auto simp: approach_neo_def split: option.split)

text \<open>
  C23 (functional): a NaN distance, velocity or diameter fails every
  comparison, so the corresponding filter rejects the approach whatever its
  comparator and reference value.
\<close>

theorem call_filter_NaN:
  "call_filter (DistanceFilter c v) ns a = Inr False \<and>
   call_filter (VelocityFilter c' v') ns a' = Inr False \<and>
   call_filter (DiameterFilter c'' v'') ns a'' = Inr False"
  if "distance a = NaN" and "velocity a' = NaN" and "approach_neo ns a'' = Some n" and "diameter n = NaN"
  using that by simp

text \<open>
  C17 (divergence from the specification): \<open>create_filters\<close> tests numeric
  bounds for truth, so a bound of \<^verbatim>\<open>0.0\<close> builds no filter at all: the
  criteria with that bound and without it give the same filters.
\<close>

theorem create_filters_zero_bounds:
  "create_filters (c\<lparr>crit_velocity_min := Some (Fin 0)\<rparr>) = create_filters (c\<lparr>crit_velocity_min := None\<rparr>) \<and>
   create_filters (c\<lparr>crit_velocity_max := Some (Fin 0)\<rparr>) = create_filters (c\<lparr>crit_velocity_max := None\<rparr>) \<and>
   create_filters (c\<lparr>crit_distance_min := Some (Fin 0)\<rparr>) = create_filters (c\<lparr>crit_distance_min := None\<rparr>) \<and>
   create_filters (c\<lparr>crit_distance_max := Some (Fin 0)\<rparr>) = create_filters (c\<lparr>crit_distance_max := None\<rparr>) \<and>
   create_filters (c\<lparr>crit_diameter_min := Some (Fin 0)\<rparr>) = create_filters (c\<lparr>crit_diameter_min := None\<rparr>) \<and>
   create_filters (c\<lparr>crit_diameter_max := Some (Fin 0)\<rparr>) = create_filters (c\<lparr>crit_diameter_max := None\<rparr>)"
  by (simp add: create_filters_def when_truthy_def)


text \<open>
  C20 (bounds): \<open>limit\<close> passes the stream through unchanged for \<^verbatim>\<open>None\<close>
  and \<^verbatim>\<open>0\<close>; for a positive bound on a stream that ends normally it yields
  its first items, \<open>min n (length)\<close> of them.
\<close>

theorem limit_bounds:
  "limit g None = g \<and> limit g (Some 0) = g \<and>
   (snd g = None \<longrightarrow> 0 < k \<longrightarrow>
      limit g (Some k) = (take (nat k) (fst g), None) \<and>
      length (fst (limit g (Some k))) = min (nat k) (length (fst g)))"
  by (auto simp: limit_def islice_list_def min_def)

text \<open>
  C21 (error): a negative bound raises \<open>ValueError\<close>; a positive bound that
  the stream reaches suppresses any exception the stream would raise later;
  one it does not reach lets the stream's exception through, with no items.
\<close>

theorem limit_exceptions:
  "(k < 0 \<longrightarrow> limit g (Some k) = ([], Some ValueError)) \<and>
   (0 < k \<longrightarrow> nat k \<le> length (fst g) \<longrightarrow> limit g (Some k) = (take (nat k) (fst g), None)) \<and>
   (0 < k \<longrightarrow> length (fst g) < nat k \<longrightarrow> limit g (Some k) = (case snd g of None \<Rightarrow> g | Some e \<Rightarrow> ([], Some e)))"
  by (auto simp: limit_def islice_list_def take_is_prefix prod_eq_iff split: option.split)

subsection \<open>Witnesses\<close>

theorem create_filters_correct_witness:
  "check_approach_against_filters call_filter [eros] (eros_1900\<lparr>neo := Some 0\<rparr>)
     (create_filters (no_criteria\<lparr>crit_distance_max := Some (Fin 0.5)\<rparr>)) True = Inr True"
  using create_filters_correct [of "no_criteria\<lparr>crit_distance_max := Some (Fin 0.5)\<rparr>" "[eros]"
      "eros_1900\<lparr>neo := Some 0\<rparr>" eros]
  by (simp add: bounds_nonzero_def no_criteria_def criteria_hold_def opt_holds_def
      approach_neo_def sample_defs)

theorem call_filter_NaN_witness:
  "call_filter (DistanceFilter OpLe (Fin 1)) [mcnaught] (orphan_2020\<lparr>distance := NaN\<rparr>) = Inr False \<and>
   call_filter (VelocityFilter OpGe (Fin 1)) [mcnaught] orphan_2020 = Inr False \<and>
   call_filter (DiameterFilter OpLe (Fin 1)) [mcnaught] (orphan_2020\<lparr>neo := Some 0\<rparr>) = Inr False"
  using call_filter_NaN [of "orphan_2020\<lparr>distance := NaN\<rparr>" orphan_2020 "[mcnaught]"
      "orphan_2020\<lparr>neo := Some 0\<rparr>" mcnaught OpLe "Fin 1" OpGe "Fin 1" OpLe "Fin 1"]
  by (simp add: approach_neo_def sample_defs)

theorem limit_bounds_witness:
  "limit ([10, 20, 30 :: nat], None) (Some 2) = ([10, 20], None) \<and>
   length (fst (limit ([10, 20, 30 :: nat], None) (Some 2))) = 2"
  using limit_bounds [of "([10, 20, 30 :: nat], None)" 2] by simp

theorem limit_exceptions_witness:
  "limit ([10, 20, 30 :: nat], Some AttributeError) (Some 2) = ([10, 20], None)"
  using limit_exceptions [of 2 "([10, 20, 30 :: nat], Some AttributeError)"] by simp

end
