(* ===== verification/Writers.thy ===== *)
theory Writers
  imports Database
begin

text \<open>
  \<^verbatim>\<open>write.py\<close>: what \<^verbatim>\<open>write_to_json\<close> and \<^verbatim>\<open>write_to_csv\<close> compute from a
  stream of results: for each approach, the merge of its \<^verbatim>\<open>serialize\<close> view
  with that of its NEO (reached through \<^verbatim>\<open>result.neo\<close>, which raises
  \<open>AttributeError\<close> for an approach without a NEO), the defaults for the name
  and the hazardous flag, and the row or object written. The bytes of the files
  (the \<^verbatim>\<open>csv\<close> and \<^verbatim>\<open>json\<close> encoders, the formatting of floats) are not
  modelled: a CSV row is the list of its cell values in field order, the JSON
  output the list of objects \<^verbatim>\<open>json.dump\<close> receives.
\<close>

section \<open>Dictionaries\<close>

text \<open>\<^verbatim>\<open>d.get(k, default)\<close>, \<^verbatim>\<open>d[k] = v\<close> and \<^verbatim>\<open>{**a, **b}\<close>.\<close>

definition dict_get :: "json_dict \<Rightarrow> string \<Rightarrow> json \<Rightarrow> json" where
  "dict_get d k dflt = (case map_of d k of Some v \<Rightarrow> v | None \<Rightarrow> dflt)"

definition dict_set :: "json_dict \<Rightarrow> string \<Rightarrow> json \<Rightarrow> json_dict" where
  "dict_set d k v = (k, v) # d"

definition dict_merge :: "json_dict \<Rightarrow> json_dict \<Rightarrow> json_dict" where
  "dict_merge a b = b @ a"

text \<open>
  \<^verbatim>\<open>float(x)\<close> on the values the views hold: a float is itself, a boolean is
  0.0 or 1.0, \<^verbatim>\<open>None\<close> raises \<open>TypeError\<close>. (Parsing a string is not modelled;
  the views never hold one where \<^verbatim>\<open>float\<close> is applied.)
\<close>

fun py_float :: "json \<Rightarrow> py_error + json" where
  "py_float (JFloat x) = Inr (JFloat x)"
| "py_float (JBool b) = Inr (JFloat (Fin (if b then 1 else 0)))"
| "py_float _ = Inl TypeError"

text \<open>\<^verbatim>\<open>str(x)\<close> on a boolean or a string (the hazardous cell of a CSV row).\<close>

fun py_str :: "json \<Rightarrow> json" where
  "py_str (JBool True) = JStr ''True''"
| "py_str (JBool False) = JStr ''False''"
| "py_str JNull = JStr ''None''"
| "py_str v = v"

text \<open>\<^verbatim>\<open>content = {**result.serialize(), **result.neo.serialize()}\<close>.\<close>

definition merged_content :: "near_earth_object \<Rightarrow> close_approach \<Rightarrow> json_dict" where
  "merged_content n a = dict_merge (approach_serialize a) (neo_serialize n)"

section \<open>JSON\<close>

text \<open>
  One object of \<^verbatim>\<open>write_to_json\<close>: the name defaults to the empty string and
  the flag to false only when the key is missing; velocity and diameter pass
  through \<^verbatim>\<open>float\<close>, velocity first.
\<close>

definition json_row :: "near_earth_object list \<Rightarrow> close_approach \<Rightarrow> py_error + json" where
  "json_row ns a =
     (case approach_neo ns a of
        None \<Rightarrow> Inl AttributeError
      | Some n \<Rightarrow>
          (let c0 = merged_content n a;
               c1 = dict_set c0 ''name'' (dict_get c0 ''name'' (JStr ''''));
               c2 = dict_set c1 ''potentially_hazardous'' (dict_get c1 ''potentially_hazardous'' (JBool False))
           in case py_float (dict_get c2 ''velocity_km_s'' JNull) of
                Inl e \<Rightarrow> Inl e
              | Inr v \<Rightarrow>
                  (case py_float (dict_get c2 ''diameter_km'' JNull) of
                     Inl e \<Rightarrow> Inl e
                   | Inr dm \<Rightarrow>
                       Inr (JObj
                         [(''datetime_utc'', dict_get c2 ''datetime_utc'' JNull),
                          (''distance_au'', dict_get c2 ''distance_au'' JNull),
                          (''velocity_km_s'', v),
                          (''neo'', JObj
                             [(''designation'', dict_get c2 ''designation'' JNull),
                              (''name'', dict_get c2 ''name'' JNull),
                              (''diameter_km'', dm),
                              (''potentially_hazardous'', dict_get c2 ''potentially_hazardous'' JNull)])]))))"

text \<open>The loop building \<^verbatim>\<open>close_approach_collection\<close>, stopping at the first exception.\<close>

fun json_collection :: "near_earth_object list \<Rightarrow> close_approach list \<Rightarrow> py_error + json list" where
  "json_collection ns [] = Inr []"
| "json_collection ns (a # as) =
     (case json_row ns a of
        Inl e \<Rightarrow> Inl e
      | Inr r \<Rightarrow> (case json_collection ns as of Inl e \<Rightarrow> Inl e | Inr rs \<Rightarrow> Inr (r # rs)))"

text \<open>
  \<^verbatim>\<open>write_to_json\<close>: the collection is built while the results are drained, and
  the file is opened and dumped only afterwards, so an exception of a row or
  of the stream leaves no file; \<open>Inr\<close> is the list dumped.
\<close>

definition write_to_json :: "near_earth_object list \<Rightarrow> close_approach gen \<Rightarrow> py_error + json list" where
  "write_to_json ns g =
     (case json_collection ns (fst g) of
        Inl e \<Rightarrow> Inl e
      | Inr rows \<Rightarrow> (case snd g of Some e \<Rightarrow> Inl e | None \<Rightarrow> Inr rows))"

section \<open>CSV\<close>

definition csv_fieldnames :: "string list" where
  "csv_fieldnames = [''datetime_utc'', ''distance_au'', ''velocity_km_s'',
                     ''designation'', ''name'', ''diameter_km'', ''potentially_hazardous'']"

text \<open>
  One row of \<^verbatim>\<open>write_to_csv\<close>: \<^verbatim>\<open>DictWriter.writerow\<close> raises
  \<open>ValueError\<close> for a key that is not a field and fills a missing field with the
  empty string. (The writer prints a \<^verbatim>\<open>None\<close> cell as the empty string.)
\<close>

definition csv_row :: "near_earth_object list \<Rightarrow> close_approach \<Rightarrow> py_error + json list" where
  "csv_row ns a =
     (case approach_neo ns a of
        None \<Rightarrow> Inl AttributeError
      | Some n \<Rightarrow>
          (let c0 = merged_content n a;
               c1 = dict_set c0 ''name'' (dict_get c0 ''name'' (JStr ''''));
               c2 = dict_set c1 ''potentially_hazardous''
                      (py_str (dict_get c1 ''potentially_hazardous'' (JStr ''False'')))
           in if \<exists>k\<in>set (map fst c2). k \<notin> set csv_fieldnames then Inl ValueError
              else Inr (map (\<lambda>k. dict_get c2 k (JStr '''')) csv_fieldnames)))"

text \<open>The rows written while the results are drained, up to the first exception.\<close>

fun csv_rows :: "near_earth_object list \<Rightarrow> close_approach list \<Rightarrow> json list gen" where
  "csv_rows ns [] = ([], None)"
| "csv_rows ns (a # as) =
     (case csv_row ns a of
        Inl e \<Rightarrow> ([], Some e)
      | Inr r \<Rightarrow> gen_cons r (csv_rows ns as))"

text \<open>
  \<^verbatim>\<open>write_to_csv\<close>: the file is opened and the header written first; the lines
  of the file are the header and the rows written before the first exception,
  which is reported as the second component.
\<close>

definition write_to_csv :: "near_earth_object list \<Rightarrow> close_approach gen \<Rightarrow> json list gen" where
  "write_to_csv ns g =
     (let (rows, e) = csv_rows ns (fst g)
      in (map JStr csv_fieldnames # rows, case e of None \<Rightarrow> snd g | Some x \<Rightarrow> Some x))"

section \<open>Properties\<close>

text \<open>
  What \<^verbatim>\<open>write.py\<close> should emit for an approach linked to the NEO \<open>n\<close>, read
  off the two views: the JSON object with its nested \<^verbatim>\<open>neo\<close> object, and the
  CSV cells in field order (a name of \<^verbatim>\<open>None\<close> stays \<^verbatim>\<open>None\<close>, the flag is
  printed as \<^verbatim>\<open>True\<close> or \<^verbatim>\<open>False\<close>).
\<close>

definition expected_json :: "near_earth_object \<Rightarrow> close_approach \<Rightarrow> json" where
  "expected_json n a =
     JObj [(''datetime_utc'', JStr (datetime_to_str (time a))),
           (''distance_au'', JFloat (distance a)),
           (''velocity_km_s'', JFloat (velocity a)),
           (''neo'', JObj [(''designation'', JStr (designation n)),
                           (''name'', case name n of None \<Rightarrow> JNull | Some s \<Rightarrow> JStr s),
                           (''diameter_km'', JFloat (diameter n)),
                           (''potentially_hazardous'', JBool (hazardous n))])]"

definition expected_csv :: "near_earth_object \<Rightarrow> close_approach \<Rightarrow> json list" where
  "expected_csv n a =
     [JStr (datetime_to_str (time a)), JFloat (distance a), JFloat (velocity a),
      JStr (designation n), (case name n of None \<Rightarrow> JNull | Some s \<Rightarrow> JStr s),
      JFloat (diameter n), JStr (if hazardous n then ''True'' else ''False'')]"

text \<open>Every approach of a stream has a NEO.\<close>

definition all_linked :: "near_earth_object list \<Rightarrow> close_approach list \<Rightarrow> bool" where
  "all_linked ns xs = list_all (\<lambda>a. approach_neo ns a \<noteq> None) xs"

lemma all_linked_simps [simp]:
  "all_linked ns [] = True"
  "all_linked ns (a # xs) = (approach_neo ns a \<noteq> None \<and> all_linked ns xs)"
  "all_linked ns (xs @ ys) = (all_linked ns xs \<and> all_linked ns ys)"
  by (simp_all add: all_linked_def)

lemma py_str_JBool [simp]: "py_str (JBool b) = JStr (if b then ''True'' else ''False'')"
  by (cases b) simp_all

lemmas writer_defs = json_row_def csv_row_def merged_content_def dict_merge_def dict_set_def
  dict_get_def neo_serialize_def approach_serialize_def

text \<open>
  One row: a linked approach gives the expected object or cells (the merged
  dictionary only has keys of the field list, so \<^verbatim>\<open>writerow\<close> never raises,
  and \<^verbatim>\<open>float\<close> is only applied to floats); an approach without a NEO raises
  \<open>AttributeError\<close> at \<^verbatim>\<open>result.neo.serialize()\<close>.
\<close>

lemma json_row_linked:
  "approach_neo ns a = Some n \<Longrightarrow> json_row ns a = Inr (expected_json n a)"
  by (simp add: writer_defs expected_json_def)

lemma csv_row_linked:
  "approach_neo ns a = Some n \<Longrightarrow> csv_row ns a = Inr (expected_csv n a)"
  by (simp add: writer_defs expected_csv_def csv_fieldnames_def)

lemma json_row_orphan: "approach_neo ns a = None \<Longrightarrow> json_row ns a = Inl AttributeError"
  by (simp add: json_row_def)

lemma csv_row_orphan: "approach_neo ns a = None \<Longrightarrow> csv_row ns a = Inl AttributeError"
  by (simp add: csv_row_def)

lemma json_collection_linked:
  "all_linked ns xs \<Longrightarrow>
   json_collection ns xs = Inr (map (\<lambda>a. expected_json (the (approach_neo ns a)) a) xs)"
  by (induction xs) (auto simp: json_row_linked)

lemma json_collection_orphan:
  "a \<in> set xs \<Longrightarrow> approach_neo ns a = None \<Longrightarrow> json_collection ns xs = Inl AttributeError"
proof (induction xs)
  case (Cons x xs)
  then show ?case
    by (cases "approach_neo ns x") (auto simp: json_row_linked json_row_orphan)
qed simp

lemma csv_rows_linked:
  "all_linked ns xs \<Longrightarrow>
   csv_rows ns xs = (map (\<lambda>a. expected_csv (the (approach_neo ns a)) a) xs, None)"
  by (induction xs) (auto simp: csv_row_linked gen_cons_def)

lemma csv_rows_orphan:
  "all_linked ns xs \<Longrightarrow> approach_neo ns a = None \<Longrightarrow>
   csv_rows ns (xs @ a # ys) = (map (\<lambda>a. expected_csv (the (approach_neo ns a)) a) xs, Some AttributeError)"
  by (induction xs) (auto simp: csv_row_linked csv_row_orphan gen_cons_def)

text \<open>
  C27 (functional): when every result has a NEO and the stream ends without an
  exception, \<open>write_to_json\<close> dumps one object per result, in order, each the
  expected object of the result and its NEO.
\<close>

theorem write_to_json_spec:
  "all_linked ns (fst g) \<Longrightarrow> snd g = None \<Longrightarrow>
   write_to_json ns g = Inr (map (\<lambda>a. expected_json (the (approach_neo ns a)) a) (fst g))"
  by (simp add: write_to_json_def json_collection_linked)

text \<open>
  C30 (divergence, null name): the \<^verbatim>\<open>content.get("name", "")\<close> default never
  applies, because the NEO view always has the key \<^verbatim>\<open>name\<close>; a NEO without a
  name is written with the JSON name \<^verbatim>\<open>null\<close>, not the empty string.
\<close>

theorem json_row_unnamed:
  "approach_neo ns a = Some n \<Longrightarrow> name n = None \<Longrightarrow>
   json_row ns a = Inr (JObj [(''datetime_utc'', JStr (datetime_to_str (time a))),
           (''distance_au'', JFloat (distance a)),
           (''velocity_km_s'', JFloat (velocity a)),
           (''neo'', JObj [(''designation'', JStr (designation n)),
                           (''name'', JNull),
                           (''diameter_km'', JFloat (diameter n)),
                           (''potentially_hazardous'', JBool (hazardous n))])])"
  by (simp add: writer_defs)

text \<open>
  C29 (error): one result without a NEO anywhere in the stream makes
  \<open>write_to_json\<close> raise \<open>AttributeError\<close>, and no file is written.
\<close>

theorem write_to_json_orphan:
  "a \<in> set (fst g) \<Longrightarrow> approach_neo ns a = None \<Longrightarrow> write_to_json ns g = Inl AttributeError"
  by (simp add: write_to_json_def json_collection_orphan)

text \<open>
  C31 (functional): when every result has a NEO, \<open>write_to_csv\<close> writes the
  header and then one row per result, in order, and ends with the stream's
  own exception, if any.
\<close>

theorem write_to_csv_linked:
  "all_linked ns (fst g) \<Longrightarrow>
   write_to_csv ns g =
     (map JStr csv_fieldnames # map (\<lambda>a. expected_csv (the (approach_neo ns a)) a) (fst g), snd g)"
  by (simp add: write_to_csv_def csv_rows_linked)

text \<open>
  C28 (error, partial output): \<open>write_to_csv\<close> has already written the header
  and the rows of the results before the first result without a NEO when it
  raises \<open>AttributeError\<close> there, leaving a truncated file.
\<close>

theorem write_to_csv_partial:
  "fst g = xs @ a # ys \<Longrightarrow> all_linked ns xs \<Longrightarrow> approach_neo ns a = None \<Longrightarrow>
   write_to_csv ns g =
     (map JStr csv_fieldnames # map (\<lambda>a. expected_csv (the (approach_neo ns a)) a) xs,
      Some AttributeError)"
  by (simp add: write_to_csv_def csv_rows_orphan)

subsection \<open>Witnesses\<close>

theorem write_to_json_spec_witness:
  "all_linked [eros\<lparr>approaches := [0]\<rparr>] [eros_1900\<lparr>neo := Some 0\<rparr>] \<and>
   write_to_json [eros\<lparr>approaches := [0]\<rparr>] ([eros_1900\<lparr>neo := Some 0\<rparr>], None) =
     Inr [expected_json (eros\<lparr>approaches := [0]\<rparr>) (eros_1900\<lparr>neo := Some 0\<rparr>)]"
  using write_to_json_spec [of "[eros\<lparr>approaches := [0]\<rparr>]" "([eros_1900\<lparr>neo := Some 0\<rparr>], None)"]
  by (simp add: approach_neo_def)

theorem json_row_unnamed_witness:
  "name unnamed_2020 = None \<and>
   json_row [unnamed_2020] (orphan_2020\<lparr>neo := Some 0\<rparr>) =
     Inr (JObj [(''datetime_utc'', JStr (datetime_to_str (time orphan_2020))),
           (''distance_au'', JFloat (Fin 0.05)), (''velocity_km_s'', JFloat NaN),
           (''neo'', JObj [(''designation'', JStr ''2020 AB''), (''name'', JNull),
                           (''diameter_km'', JFloat (Fin 0.1)),
                           (''potentially_hazardous'', JBool False)])])"
  using json_row_unnamed [of "[unnamed_2020]" "orphan_2020\<lparr>neo := Some 0\<rparr>" unnamed_2020]
  by (simp add: approach_neo_def sample_defs)

theorem write_to_json_orphan_witness:
  "write_to_json [eros\<lparr>approaches := [0]\<rparr>] ([eros_1900\<lparr>neo := Some 0\<rparr>, orphan_2020], None) =
     Inl AttributeError"
  using write_to_json_orphan [of orphan_2020 "([eros_1900\<lparr>neo := Some 0\<rparr>, orphan_2020], None)"
      "[eros\<lparr>approaches := [0]\<rparr>]"]
  by (simp add: approach_neo_def orphan_2020_def)

theorem write_to_csv_linked_witness:
  "all_linked [eros\<lparr>approaches := [0]\<rparr>] [eros_1900\<lparr>neo := Some 0\<rparr>] \<and>
   write_to_csv [eros\<lparr>approaches := [0]\<rparr>] ([eros_1900\<lparr>neo := Some 0\<rparr>], Some ValueError) =
     ([map JStr csv_fieldnames, expected_csv (eros\<lparr>approaches := [0]\<rparr>) (eros_1900\<lparr>neo := Some 0\<rparr>)],
      Some ValueError)"
  using write_to_csv_linked [of "[eros\<lparr>approaches := [0]\<rparr>]" "([eros_1900\<lparr>neo := Some 0\<rparr>], Some ValueError)"]
  by (simp add: approach_neo_def)

theorem write_to_csv_partial_witness:
  "all_linked [eros\<lparr>approaches := [0]\<rparr>] [eros_1900\<lparr>neo := Some 0\<rparr>] \<and>
   write_to_csv [eros\<lparr>approaches := [0]\<rparr>] ([eros_1900\<lparr>neo := Some 0\<rparr>, orphan_2020, eros_1900], None) =
     ([map JStr csv_fieldnames, expected_csv (eros\<lparr>approaches := [0]\<rparr>) (eros_1900\<lparr>neo := Some 0\<rparr>)],
      Some AttributeError)"
  using write_to_csv_partial [of "([eros_1900\<lparr>neo := Some 0\<rparr>, orphan_2020, eros_1900], None)"
      "[eros_1900\<lparr>neo := Some 0\<rparr>]" orphan_2020 "[eros_1900]" "[eros\<lparr>approaches := [0]\<rparr>]"]
  by (simp add: approach_neo_def orphan_2020_def)

end
