(* ===== verification/Extract.thy ===== *)
theory Extract
  imports Database
begin

text \<open>
  \<^verbatim>\<open>extract.py\<close>: the conversion of each input record into an entity.
  \<^verbatim>\<open>load_neos\<close> turns each \<^verbatim>\<open>csv.DictReader\<close> row (a dictionary from the
  header's column names to the cell texts) into a \<^verbatim>\<open>NearEarthObject\<close>;
  \<^verbatim>\<open>load_approaches\<close> zips the \<^verbatim>\<open>fields\<close> of the JSON document with each
  of its \<^verbatim>\<open>data\<close> rows and turns the dictionary into a \<^verbatim>\<open>CloseApproach\<close>.
  \<^verbatim>\<open>csv.DictReader\<close> is modelled on the records of the file
  (\<open>dict_reader\<close>); splitting the text into records and the JSON decoder are
  not: the input is the list of records, or of data rows, they deliver. The model's designation is a string, so a row
  without a designation (where Python would store \<^verbatim>\<open>None\<close>) is outside the
  model, the value \<open>None\<close> of the loader functions; an exception is an
  \<open>Inl\<close> inside \<open>Some\<close>.
\<close>

section \<open>\<^verbatim>\<open>float()\<close> on text\<close>

text \<open>
  \<^verbatim>\<open>float(s)\<close> for a string: surrounding whitespace is stripped, then an
  optional sign and either \<^verbatim>\<open>nan\<close> (any case) or a decimal literal, digits
  with an optional fraction (at least one digit in all) and an optional
  exponent. Anything else raises \<open>ValueError\<close>. The infinities and digit
  separators (\<^verbatim>\<open>inf\<close>, \<^verbatim>\<open>1_000\<close>), which Python also accepts, have no
  counterpart in \<open>flt\<close> and are not modelled: they give \<open>ValueError\<close> here.
  The value is exact (a real, no rounding to binary64); the mantissa is read as
  a natural number and converted through \<open>int\<close>, which evaluates in binary.
\<close>

definition is_digit :: "char \<Rightarrow> bool" where
  "is_digit c = (digit_val c \<noteq> None)"

definition py_isspace :: "char \<Rightarrow> bool" where
  "py_isspace c = (let n = (of_char c :: nat) in n = 32 \<or> (9 \<le> n \<and> n \<le> 13))"

definition py_strip :: "string \<Rightarrow> string" where
  "py_strip s = rev (dropWhile py_isspace (rev (dropWhile py_isspace s)))"

definition split_sign :: "string \<Rightarrow> int \<times> string" where
  "split_sign s =
     (case s of
        [] \<Rightarrow> (1, [])
      | c # cs \<Rightarrow> if c = CHR ''-'' then (-1, cs) else if c = CHR ''+'' then (1, cs) else (1, s))"

definition parse_exponent :: "string \<Rightarrow> int option" where
  "parse_exponent s =
     (case s of
        [] \<Rightarrow> Some 0
      | c # cs \<Rightarrow>
          if c = CHR ''e'' \<or> c = CHR ''E'' then
            (let (sg, ds) = split_sign cs
             in if ds = [] then None else map_option (\<lambda>n. sg * int n) (parse_digits 0 ds))
          else None)"

definition pow10 :: "int \<Rightarrow> real" where
  "pow10 e = (if 0 \<le> e then 10 ^ nat e else 1 / 10 ^ nat (- e))"

definition parse_decimal :: "string \<Rightarrow> real option" where
  "parse_decimal s =
     (let ip = takeWhile is_digit s;
          r1 = dropWhile is_digit s;
          (fp, r2) = (case r1 of
                        [] \<Rightarrow> ([], [])
                      | c # cs \<Rightarrow> if c = CHR ''.'' then (takeWhile is_digit cs, dropWhile is_digit cs)
                                  else ([], r1))
      in if ip = [] \<and> fp = [] then None
         else (case (parse_digits 0 (ip @ fp), parse_exponent r2) of
                 (Some m, Some e) \<Rightarrow> Some (of_int (int m) / 10 ^ length fp * pow10 e)
               | _ \<Rightarrow> None))"

definition py_float_str :: "string \<Rightarrow> py_error + flt" where
  "py_float_str s =
     (let (sg, body) = split_sign (py_strip s)
      in if map py_lower_char body = ''nan'' then Inr NaN
         else (case parse_decimal body of
                 Some x \<Rightarrow> Inr (Fin (of_int sg * x))
               | None \<Rightarrow> Inl ValueError))"

section \<open>Rows\<close>

text \<open>
  A row as its decoder delivers it: a dictionary from column or field names to
  texts, \<^verbatim>\<open>row.get(k)\<close> being \<open>None\<close> for a missing key. For the JSON rows a
  value is \<open>None\<close> also when the document holds \<^verbatim>\<open>null\<close>.
\<close>

type_synonym text_row = "(string \<times> string option) list"

definition row_get :: "text_row \<Rightarrow> string \<Rightarrow> string option" where
  "row_get r k = (case map_of r k of Some v \<Rightarrow> v | None \<Rightarrow> None)"

text \<open>
  One row of \<^verbatim>\<open>load_neos\<close>: the diameter is parsed only when its cell is
  truthy (present and non-empty), the flag is \<^verbatim>\<open>row.get('pha') == "Y"\<close>, an
  empty name becomes \<^verbatim>\<open>None\<close>.
\<close>

definition load_neo_row :: "text_row \<Rightarrow> (py_error + near_earth_object) option" where
  "load_neo_row r =
     (case row_get r ''pdes'' of
        None \<Rightarrow> None
      | Some des \<Rightarrow>
          Some (case (case row_get r ''diameter'' of
                        Some s \<Rightarrow> if s \<noteq> [] then map_sum id Some (py_float_str s) else Inr None
                      | None \<Rightarrow> Inr None) of
                  Inl e \<Rightarrow> Inl e
                | Inr diam \<Rightarrow>
                    Inr (make_neo des
                          (case row_get r ''name'' of Some s \<Rightarrow> if s \<noteq> [] then Some s else None | None \<Rightarrow> None)
                          diam (row_get r ''pha'' = Some ''Y''))))"

text \<open>
  \<^verbatim>\<open>dict(zip(fields, data))\<close>: \<^verbatim>\<open>zip\<close> stops at the shorter list and, for a
  repeated field, the later pair wins.
\<close>

definition zip_dict :: "string list \<Rightarrow> string option list \<Rightarrow> text_row" where
  "zip_dict keys data = rev (zip keys data)"

text \<open>
  \<^verbatim>\<open>float(None)\<close> raises \<open>TypeError\<close>.
\<close>

definition py_float_opt :: "string option \<Rightarrow> py_error + flt" where
  "py_float_opt v = (case v of None \<Rightarrow> Inl TypeError | Some s \<Rightarrow> py_float_str s)"

text \<open>
  One row of \<^verbatim>\<open>load_approaches\<close>: the keyword arguments are evaluated in
  order (the distance is parsed before the velocity), then
  \<^verbatim>\<open>CloseApproach.__init__\<close> parses the time (\<^verbatim>\<open>cd_to_datetime(None)\<close>
  raises \<open>TypeError\<close>).
\<close>

definition load_approach_row :: "string list \<Rightarrow> string option list \<Rightarrow> (py_error + close_approach) option" where
  "load_approach_row keys data =
     (let r = zip_dict keys data
      in case row_get r ''des'' of
           None \<Rightarrow> None
         | Some des \<Rightarrow>
             Some (case py_float_opt (row_get r ''dist'') of
                     Inl e \<Rightarrow> Inl e
                   | Inr dst \<Rightarrow>
                       (case py_float_opt (row_get r ''v_rel'') of
                          Inl e \<Rightarrow> Inl e
                        | Inr vel \<Rightarrow>
                            (case row_get r ''cd'' of
                               None \<Rightarrow> Inl TypeError
                             | Some t \<Rightarrow> make_close_approach des t (Some vel) (Some dst) None))))"

text \<open>
  The loops: each row is converted in turn and appended; the first exception
  ends the load.
\<close>

fun load_rows :: "('r \<Rightarrow> (py_error + 'a) option) \<Rightarrow> 'r list \<Rightarrow> (py_error + 'a list) option" where
  "load_rows f [] = Some (Inr [])"
| "load_rows f (r # rs) =
     (case f r of
        None \<Rightarrow> None
      | Some (Inl e) \<Rightarrow> Some (Inl e)
      | Some (Inr x) \<Rightarrow> map_option (map_sum id (Cons x)) (load_rows f rs))"

definition load_neos :: "text_row list \<Rightarrow> (py_error + near_earth_object list) option" where
  "load_neos rows = load_rows load_neo_row rows"

definition load_approaches :: "string list \<Rightarrow> string option list list \<Rightarrow> (py_error + close_approach list) option" where
  "load_approaches keys data = load_rows (load_approach_row keys) data"

text \<open>
  \<^verbatim>\<open>csv.DictReader\<close>: the first record of the file names the columns; every
  later record that is not blank becomes a row, \<^verbatim>\<open>dict(zip(fieldnames, row))\<close>,
  and a record shorter than the header gives the missing columns the value
  \<^verbatim>\<open>None\<close> (\<^verbatim>\<open>restval\<close>). The cells of a record longer than the header go
  under the key \<^verbatim>\<open>None\<close> (\<^verbatim>\<open>restkey\<close>), which no \<^verbatim>\<open>row.get\<close> of the
  loader reads and the model drops.
\<close>

definition dict_reader_row :: "string list \<Rightarrow> string list \<Rightarrow> text_row" where
  "dict_reader_row h vs = map (\<lambda>k. (k, None)) (drop (length vs) h) @ rev (zip h (map Some vs))"

definition dict_reader :: "string list list \<Rightarrow> text_row list" where
  "dict_reader rows = (case rows of [] \<Rightarrow> [] | h # rs \<Rightarrow> map (dict_reader_row h) (filter (\<lambda>r. r \<noteq> []) rs))"

section \<open>Sample rows\<close>

text \<open>
  The rows of the specification's example as the decoders deliver them: the
  CSV row of 433 Eros and its 1900 approach as a row of the close-approach
  API (its \<^verbatim>\<open>fields\<close> and one \<^verbatim>\<open>data\<close> entry).
\<close>


definition eros_csv_row :: text_row where
  "eros_csv_row = [(''pdes'', Some ''433''), (''name'', Some ''Eros''), (''diameter'', Some ''16.84''), (''pha'', Some ''N'')]"

definition cad_fields :: "string list" where
  "cad_fields = [''des'', ''orbit_id'', ''jd'', ''cd'', ''dist'', ''dist_min'', ''dist_max'', ''v_rel'']"

definition eros_cad_data :: "string option list" where
  "eros_cad_data = [Some ''433'', Some ''A'', Some ''2415020.5'', Some ''1900-Jan-01 00:00'', Some ''0.32'', Some ''0.31'', Some ''0.33'', Some ''5.5'']"

section \<open>Properties\<close>

subsection \<open>Text to float\<close>



lemma is_digit_digit_char [simp]: "d < 10 \<Longrightarrow> is_digit (digit_char d)"
  by (simp add: is_digit_def)


lemma not_digit_dot [simp]: "\<not> is_digit CHR ''.''"
  by (simp add: is_digit_def digit_val_def)









subsection \<open>Loaders\<close>





lemma row_get_zip_dict_None:
  "x \<notin> set (take (length data) keys) \<Longrightarrow> row_get (zip_dict keys data) x = None"
proof -
  assume "x \<notin> set (take (length data) keys)"
  then have "map_of (rev (zip keys data)) x = None"
    by (auto simp: map_of_eq_None_iff map_fst_zip_take min_def simp flip: set_map)
  then show ?thesis by (simp add: row_get_def zip_dict_def)
qed

lemma map_of_map_None:
  "map_of (map (\<lambda>k. (k, None)) ks) k = (if k \<in> set ks then Some None else None)"
  by (induction ks) auto

text \<open>With distinct column names, \<^verbatim>\<open>row.get\<close> of a column is its cell, or \<^verbatim>\<open>None\<close> past the end of the record.\<close>

lemma row_get_dict_reader_row:
  assumes "distinct h" and "i < length h"
  shows "row_get (dict_reader_row h vs) (h ! i) = (if i < length vs then Some (vs ! i) else None)"
proof (cases "i < length vs")
  case True
  have notin: "h ! i \<notin> set (drop (length vs) h)"
    using assms True by (auto simp: in_set_conv_nth nth_eq_iff_index_eq)
  have d: "distinct (map fst (zip h (map Some vs)))"
    using assms(1) by (simp add: map_fst_zip_take distinct_take)
  have mem: "(h ! i, Some (vs ! i)) \<in> set (rev (zip h (map Some vs)))"
    using assms True by (auto simp: in_set_zip)
  have "map_of (rev (zip h (map Some vs))) (h ! i) = Some (Some (vs ! i))"
    using d mem by (simp add: map_of_eq_Some_iff rev_map [symmetric])
  with notin show ?thesis
    by (simp add: row_get_def dict_reader_row_def map_add_def map_of_map_None True)
next
  case False
  have "h ! i \<in> set (drop (length vs) h)"
    using assms False by (auto simp: in_set_conv_nth intro: exI [of _ "i - length vs"])
  with False show ?thesis
    by (simp add: row_get_def dict_reader_row_def map_of_map_None)
qed

text \<open>The sample rows load to the sample entities.\<close>

lemma eros_csv_row_load: "load_neo_row eros_csv_row = Some (Inr eros)"
  by code_simp

lemma eros_cad_data_load: "load_approach_row cad_fields eros_cad_data = Some (Inr eros_1900)"
  by code_simp

text \<open>
  C33 (type): a NEO loaded from a row has the row's designation, a name that
  is never the empty string (\<^verbatim>\<open>name or None\<close>), the hazardous flag exactly
  when the cell is \<^verbatim>\<open>Y\<close>, and no approaches yet.
\<close>

theorem load_neo_row_fields:
  "load_neo_row r = Some (Inr n) \<Longrightarrow>
   row_get r ''pdes'' = Some (designation n) \<and> name n \<noteq> Some [] \<and>
   hazardous n = (row_get r ''pha'' = Some ''Y'') \<and> approaches n = []"
  by (auto simp: load_neo_row_def make_neo_def split: option.splits sum.splits if_splits)


text \<open>
  C35 (error): a data row too short to reach the \<^verbatim>\<open>dist\<close> field (\<^verbatim>\<open>zip\<close>
  drops the missing fields) makes \<^verbatim>\<open>float(None)\<close> raise \<open>TypeError\<close>.
\<close>

theorem load_approach_row_short:
  "row_get (zip_dict keys data) ''des'' = Some d \<Longrightarrow> ''dist'' \<notin> set (take (length data) keys) \<Longrightarrow>
   load_approach_row keys data = Some (Inl TypeError)"
  by (simp add: load_approach_row_def row_get_zip_dict_None py_float_opt_def)

text \<open>
  C37 (sentinel): an approach whose distance text denotes zero is loaded with
  the NaN distance, because \<^verbatim>\<open>distance if distance else float("nan")\<close>
  treats 0.0 as missing.
\<close>

theorem load_zero_distance:
  "load_approach_row keys data = Some (Inr a) \<Longrightarrow> row_get (zip_dict keys data) ''dist'' = Some s \<Longrightarrow>
   py_float_str s = Inr (Fin 0) \<Longrightarrow> distance a = NaN"
  by (auto simp: load_approach_row_def Let_def make_close_approach_def py_float_opt_def
      split: option.splits sum.splits)

text \<open>
  C32 (boundary input, short CSV record): a record of the NEO file cut off
  after its designation but before the diameter column is still loaded,
  without an exception: \<^verbatim>\<open>DictReader\<close> gives the missing diameter the value
  \<^verbatim>\<open>None\<close>, which the loader treats as no diameter, so the NEO has the NaN
  diameter.
\<close>

theorem load_short_csv_line:
  assumes "distinct h" and "i < length vs" and "i < length h" and "h ! i = ''pdes''"
    and "j < length h" and "h ! j = ''diameter''" and "length vs \<le> j"
  shows "\<exists>n. load_neo_row (dict_reader_row h vs) = Some (Inr n) \<and> designation n = vs ! i \<and> diameter n = NaN"
proof -
  have p: "row_get (dict_reader_row h vs) ''pdes'' = Some (vs ! i)"
    using row_get_dict_reader_row [OF assms(1,3), of vs] assms(2,4) by simp
  have d: "row_get (dict_reader_row h vs) ''diameter'' = None"
    using row_get_dict_reader_row [OF assms(1,5), of vs] assms(6,7) by simp
  show ?thesis
    by (simp add: load_neo_row_def p d make_neo_def)
qed

text \<open>
  Example (the specification's example): the two loaders turn the
  example's rows into the entities \<open>eros\<close> and \<open>eros_1900\<close>.
\<close>

theorem spec_load_example:
  "load_neos [eros_csv_row] = Some (Inr [eros]) \<and>
   load_approaches cad_fields [eros_cad_data] = Some (Inr [eros_1900])"
  by (simp add: load_neos_def load_approaches_def eros_csv_row_load eros_cad_data_load)

subsection \<open>Witnesses\<close>


theorem load_neo_row_fields_witness:
  "load_neo_row eros_csv_row = Some (Inr eros) \<and> row_get eros_csv_row ''pdes'' = Some ''433'' \<and>
   name eros \<noteq> Some [] \<and> \<not> hazardous eros"
proof -
  show ?thesis using load_neo_row_fields [OF eros_csv_row_load] eros_csv_row_load
    by (simp add: sample_defs)
qed


theorem load_approach_row_short_witness:
  "row_get (zip_dict cad_fields [Some ''433'', Some ''A'']) ''des'' = Some ''433'' \<and>
   ''dist'' \<notin> set (take 2 cad_fields) \<and>
   load_approach_row cad_fields [Some ''433'', Some ''A''] = Some (Inl TypeError)"
  using load_approach_row_short [of cad_fields "[Some ''433'', Some ''A'']" "''433''"]
  by (simp add: cad_fields_def row_get_def zip_dict_def)

theorem load_zero_distance_witness:
  "load_approach_row cad_fields (eros_cad_data[4 := Some ''0.0'']) = Some (Inr (eros_1900\<lparr>distance := NaN\<rparr>)) \<and>
   py_float_str ''0.0'' = Inr (Fin 0) \<and> distance (eros_1900\<lparr>distance := NaN\<rparr>) = NaN"
proof -
  have l: "load_approach_row cad_fields (eros_cad_data[4 := Some ''0.0'']) = Some (Inr (eros_1900\<lparr>distance := NaN\<rparr>))"
    by code_simp
  have r: "row_get (zip_dict cad_fields (eros_cad_data[4 := Some ''0.0''])) ''dist'' = Some ''0.0''"
    by code_simp
  have p: "py_float_str ''0.0'' = Inr (Fin 0)" by code_simp
  show ?thesis using load_zero_distance [OF l r p] l p by simp
qed

theorem load_short_csv_line_witness:
  "distinct [''pdes'', ''name'', ''pha'', ''diameter''] \<and>
   load_neo_row (dict_reader_row [''pdes'', ''name'', ''pha'', ''diameter''] [''433'', ''Eros'', ''N'']) =
     Some (Inr (make_neo ''433'' (Some ''Eros'') None False)) \<and>
   (\<exists>n. load_neo_row (dict_reader_row [''pdes'', ''name'', ''pha'', ''diameter''] [''433'', ''Eros'', ''N'']) =
      Some (Inr n) \<and> designation n = ''433'' \<and> diameter n = NaN)"
proof -
  have "load_neo_row (dict_reader_row [''pdes'', ''name'', ''pha'', ''diameter''] [''433'', ''Eros'', ''N'']) =
      Some (Inr (make_neo ''433'' (Some ''Eros'') None False))"
    by code_simp
  then show ?thesis
    using load_short_csv_line [of "[''pdes'', ''name'', ''pha'', ''diameter'']" 0 "[''433'', ''Eros'', ''N'']" 3]
    by simp
qed

end
