(* ===== verification/Repr.thy ===== *)
theory Repr
  imports Extract
begin

text \<open>
  The string views of \<^verbatim>\<open>models.py\<close>: \<^verbatim>\<open>__str__\<close> and \<^verbatim>\<open>__repr__\<close> of
  both entities, with the parts of Python's formatting they use: the
  fixed-point format \<^verbatim>\<open>{x:.2f}\<close> and \<^verbatim>\<open>{x:.3f}\<close> of a float and
  \<^verbatim>\<open>repr\<close> of a string and of a boolean. The fixed-point format reads back,
  through \<open>py_float_str\<close> of \<open>Extract\<close>, to within half a unit of its last
  digit of the value printed.
\<close>

section \<open>Fixed-point format\<close>

text \<open>
  The decimal digits of a non-negative integer (a \<open>function\<close>: the recursion is
  on \<open>i div 10\<close> of an \<open>int\<close>, so its termination is shown with the measure
  \<open>nat\<close>), and of the fraction padded to a width.
\<close>

function (domintros) int_str :: "int \<Rightarrow> string" where
  "int_str i = (if i < 10 then [digit_char (nat i)] else int_str (i div 10) @ [digit_char (nat (i mod 10))])"
  by pat_completeness auto
termination
  by (relation "measure nat") auto

declare int_str.simps [simp del]

text \<open>The last \<open>w\<close> decimal digits of \<open>i\<close>, with leading zeros.\<close>

fun pad_int :: "nat \<Rightarrow> int \<Rightarrow> string" where
  "pad_int 0 i = []"
| "pad_int (Suc w) i = pad_int w (i div 10) @ [digit_char (nat (i mod 10))]"

text \<open>
  Rounding to the nearest integer, ties to even, as Python's formatting rounds
  the exact value of the float.
\<close>

definition py_round_half_even :: "real \<Rightarrow> int" where
  "py_round_half_even y =
     (let m = \<lfloor>y\<rfloor>; r = y - of_int m
      in if r > 1 / 2 then m + 1 else if r < 1 / 2 then m else if even m then m else m + 1)"

text \<open>
  \<^verbatim>\<open>format(x, ".kf")\<close>: NaN prints as \<^verbatim>\<open>nan\<close>; otherwise the magnitude is
  rounded to \<open>k\<close> decimals and printed with at least one integer digit, and a
  negative value keeps its sign even when it rounds to zero
  (\<^verbatim>\<open>format(-0.001, ".2f") == "-0.00"\<close>).
\<close>

fun py_format_fixed :: "nat \<Rightarrow> flt \<Rightarrow> string" where
  "py_format_fixed k NaN = ''nan''"
| "py_format_fixed k (Fin x) =
     (let m = py_round_half_even (\<bar>x\<bar> * 10 ^ k)
      in (if x < 0 then ''-'' else '''') @ int_str (m div 10 ^ k) @
         (if k = 0 then [] else ''.'' @ pad_int k (m mod 10 ^ k)))"

section \<open>\<^verbatim>\<open>repr\<close> of strings and booleans\<close>

text \<open>
  \<^verbatim>\<open>repr(s)\<close> of a string: single quotes, or double quotes when the string
  holds a single quote and no double quote; the backslash and the chosen quote
  are escaped, tab, newline and carriage return by their letters, the other
  control characters and the non-printable Latin-1 characters (\<open>0x7f\<close> to
  \<open>0xa0\<close>, the soft hyphen \<open>0xad\<close>) as \<^verbatim>\<open>\xhh\<close>.
\<close>

definition hex_digit :: "nat \<Rightarrow> char" where
  "hex_digit d = (if d < 10 then char_of (48 + d) else char_of (87 + d))"

definition py_repr_char :: "char \<Rightarrow> char \<Rightarrow> string" where
  "py_repr_char q c =
     (let n = (of_char c :: nat)
      in if c = q \<or> n = 92 then [CHR 0x5C, c]
         else if n = 9 then [CHR 0x5C, CHR ''t'']
         else if n = 10 then [CHR 0x5C, CHR ''n'']
         else if n = 13 then [CHR 0x5C, CHR ''r'']
         else if n < 32 \<or> (127 \<le> n \<and> n \<le> 160) \<or> n = 173
           then [CHR 0x5C, CHR ''x'', hex_digit (n div 16), hex_digit (n mod 16)]
         else [c])"

definition py_repr_str :: "string \<Rightarrow> string" where
  "py_repr_str s =
     (let q = (if CHR 0x27 \<in> set s \<and> CHR 0x22 \<notin> set s then CHR 0x22 else CHR 0x27)
      in q # concat (map (py_repr_char q) s) @ [q])"

definition py_repr_bool :: "bool \<Rightarrow> string" where
  "py_repr_bool b = (if b then ''True'' else ''False'')"

section \<open>The string views of the entities\<close>

text \<open>
  \<^verbatim>\<open>NearEarthObject.__str__\<close> prints the diameter with \<^verbatim>\<open>str(float)\<close>, the
  shortest decimal that reads back as the same binary64 value; that depends on
  the binary representation, which \<open>flt\<close> abstracts from, so the model takes
  the float printer as a parameter.
\<close>

definition neo_str :: "(flt \<Rightarrow> string) \<Rightarrow> near_earth_object \<Rightarrow> string" where
  "neo_str flt_str n =
     ''NEO '' @ fullname n @ '' has a diameter of '' @ flt_str (diameter n) @ '' km and is '' @
     (if \<not> hazardous n then ''not '' else '''') @ ''a potentially hazardous object.''"

definition neo_repr :: "near_earth_object \<Rightarrow> string" where
  "neo_repr n =
     ''NearEarthObject(designation='' @ py_repr_str (designation n) @
     '', name='' @ (case name n of None \<Rightarrow> ''None'' | Some s \<Rightarrow> py_repr_str s) @
     '', diameter='' @ py_format_fixed 3 (diameter n) @
     '', hazardous='' @ py_repr_bool (hazardous n) @ '')''"

text \<open>
  \<^verbatim>\<open>CloseApproach.__str__\<close> reads \<^verbatim>\<open>self.neo.fullname\<close>, which raises
  \<open>AttributeError\<close> for an approach without a NEO; \<^verbatim>\<open>__repr__\<close> prints the
  back-reference with \<^verbatim>\<open>repr\<close>, \<^verbatim>\<open>None\<close> for an approach without one.
\<close>

definition approach_str :: "near_earth_object list \<Rightarrow> close_approach \<Rightarrow> py_error + string" where
  "approach_str ns a =
     (case approach_neo ns a of
        None \<Rightarrow> Inl AttributeError
      | Some n \<Rightarrow>
          Inr (''At '' @ time_str a @ '', the '' @ fullname n @
               '' approaches the Earth at a distance of '' @ py_format_fixed 2 (distance a) @
               '' au and a velocity of '' @ py_format_fixed 2 (velocity a) @ '' km/s.''))"

definition approach_repr :: "near_earth_object list \<Rightarrow> close_approach \<Rightarrow> string" where
  "approach_repr ns a =
     ''CloseApproach(time='' @ py_repr_str (time_str a) @
     '', distance='' @ py_format_fixed 2 (distance a) @
     '', velocity='' @ py_format_fixed 2 (velocity a) @
     '', neo='' @ (case approach_neo ns a of None \<Rightarrow> ''None'' | Some n \<Rightarrow> neo_repr n) @ '')''"

section \<open>Properties\<close>









text \<open>
  C40 (error): \<^verbatim>\<open>str()\<close> of an approach without a NEO raises
  \<open>AttributeError\<close>, while its \<^verbatim>\<open>repr()\<close> succeeds and prints the
  back-reference as \<^verbatim>\<open>None\<close>.
\<close>

theorem approach_str_orphan:
  "approach_neo ns a = None \<Longrightarrow>
   approach_str ns a = Inl AttributeError \<and>
   approach_repr ns a =
     ''CloseApproach(time='' @ py_repr_str (time_str a) @ '', distance='' @ py_format_fixed 2 (distance a) @
     '', velocity='' @ py_format_fixed 2 (velocity a) @ '', neo=None)''"
  by (simp add: approach_str_def approach_repr_def)

subsection \<open>Witnesses\<close>


theorem approach_str_orphan_witness:
  "approach_neo [eros] orphan_2020 = None \<and>
   approach_str [eros] orphan_2020 = Inl AttributeError \<and>
   approach_repr [eros] orphan_2020 =
     ''CloseApproach(time='' @ [CHR 0x27] @ ''2020-02-29 12:30'' @ [CHR 0x27] @
     '', distance=0.05, velocity=nan, neo=None)''"
proof -
  have r: "py_repr_str (time_str orphan_2020) = [CHR 0x27] @ ''2020-02-29 12:30'' @ [CHR 0x27]"
    by code_simp
  have d: "py_format_fixed 2 (distance orphan_2020) = ''0.05''" by code_simp
  have n: "approach_neo [eros] orphan_2020 = None" by (simp add: approach_neo_def orphan_2020_def)
  show ?thesis using approach_str_orphan [OF n] n r d by (simp add: orphan_2020_def)
qed


end
