(* ===== verification/Spec2Isabelle.thy ===== *)
theory Spec2Isabelle
  imports Filters Writers Extract Repr
begin

text \<open>
  \<^bold>\<open>A verification library for the NEO close-approach database (Udacity-NEO).\<close>

  \<^bold>\<open>The program.\<close> Loaders (\<^verbatim>\<open>src/extract.py\<close>) build
  \<^verbatim>\<open>NearEarthObject\<close> and \<^verbatim>\<open>CloseApproach\<close> objects
  (\<^verbatim>\<open>src/models.py\<close>); \<^verbatim>\<open>NEODatabase.__init__\<close> (\<^verbatim>\<open>src/database.py\<close>)
  indexes the NEOs by designation and links every approach to its NEO in both
  directions; \<^verbatim>\<open>create_filters\<close> (\<^verbatim>\<open>src/filters.py\<close>) turns the user's
  criteria into filter objects; \<^verbatim>\<open>NEODatabase.query\<close> streams the approaches
  that pass every filter; \<^verbatim>\<open>limit\<close> truncates the stream; writers
  (\<^verbatim>\<open>src/write.py\<close>) serialise it. Components interact by calls and by the
  shared, mutated entity objects: the linkage pass writes \<^verbatim>\<open>approach.neo\<close>
  and appends to \<^verbatim>\<open>neo.approaches\<close>, and the filters later read through
  the back-reference.

  \<^bold>\<open>Theories.\<close>
  \<^item> \<open>Prelude\<close>: named collections (\<open>py_simps\<close>, \<open>link_simps\<close>), the
    exceptions the core raises (\<open>py_error\<close>), the type \<open>'a gen\<close> of a drained
    generator (items yielded, then the exception that stopped it, if any),
    generic list and scan lemmas.
  \<^item> \<open>PyBuiltins\<close>: floats as \<open>flt\<close> (a real or NaN, every NaN comparison
    false), truthiness (\<open>py_truthy_flt\<close>, \<open>py_or_nan\<close> for
    \<^verbatim>\<open>x or float("nan")\<close>), the comparators of \<^verbatim>\<open>operator\<close>
    (\<open>apply_op\<close>, \<open>apply_op_flt\<close>), ASCII \<^verbatim>\<open>str.upper\<close> and
    \<^verbatim>\<open>str.capitalize\<close>, and \<^verbatim>\<open>list(islice(it, 0, n))\<close> (\<open>islice_list\<close>).
  \<^item> \<open>DateTime\<close>: \<^verbatim>\<open>helpers.cd_to_datetime\<close> and
    \<^verbatim>\<open>helpers.datetime_to_str\<close>. The module \<^verbatim>\<open>helpers.py\<close> is not among the
    sources, so both are modelled from the formats the specification states:
    fixed-width fields, a four-digit year, month abbreviations matched without
    regard to case, the calendar checks of \<^verbatim>\<open>datetime\<close> (leap years
    included). \<open>date\<close> carries a lexicographic \<open>linorder\<close> instance, the order
    \<^verbatim>\<open>DateFilter\<close> compares with. Proved: parsing the compact form of any
    valid date-time gives it back (\<open>cd_roundtrip\<close>), and whatever parses is
    valid.
  \<^item> \<open>Models\<close>: the records \<open>near_earth_object\<close> and \<open>close_approach\<close>, the
    constructors (\<open>make_neo\<close>, \<open>make_close_approach\<close>), \<open>fullname\<close>, the
    \<^verbatim>\<open>serialize\<close> views; sample entities used by the witnesses. The two
    kinds of object live in the database's two lists and refer to each other
    by position (\<open>approaches\<close> of a NEO, \<open>neo\<close> of an approach): object identity
    is list position, so the aliasing the linkage creates is explicit.
  \<^item> \<open>Database\<close>: \<open>neo_database\<close> (\<^verbatim>\<open>__init__\<close>: \<open>designation_index\<close>,
    then one \<open>link_approach\<close> step per approach, a left fold over the
    positions), \<open>get_neo_by_designation\<close>, \<open>get_neo_by_name\<close>,
    \<open>check_approach_against_filters\<close>, \<open>query_scan\<close> and \<open>query\<close>. The query
    loop is stated over an interface, a function \<open>'f filter_call\<close> that calls a
    filter of any type \<open>'f\<close> on an approach; its lemmas hold for every filter
    implementation. Proved: the loop computes a declarative linked state
    (\<open>neo_database_spec\<close>, through the invariant \<open>link_upto\<close> of the fold), the
    links are consistent and well formed (\<open>neo_database_consistent\<close>), unique
    designations link exactly once, duplicates keep the last, orphans stay
    unlinked; the lookups; the check's exact behaviour on every branch; query
    as a list filter (refinement), its exception behaviour, its progress (the
    passing approaches of every block on which no filter raises are yielded,
    in order, whatever follows) and monotonicity; the query lemmas share one
    induction, \<open>query_scan_append_total\<close>.
  \<^item> \<open>Filters\<close>: the filter classes as the datatype \<open>attribute_filter\<close> and
    \<open>call_filter\<close> (the implementation of the interface), \<open>create_filters\<close>,
    \<open>limit\<close>; the criteria as the specification states them
    (\<open>criteria_hold\<close>). Proved: the built filters implement the criteria
    when every bound is non-zero; exactly when a filter raises; NaN fails every
    filter; a zero bound builds no filter; \<open>limit\<close> delivers a prefix, the
    first \<open>n\<close> items, its exceptions.
  \<^item> \<open>Writers\<close>: \<^verbatim>\<open>write_to_json\<close> and \<^verbatim>\<open>write_to_csv\<close> as the values
    they emit: \<open>json_row\<close> and \<open>csv_row\<close> (the loop bodies: merge of the two
    \<^verbatim>\<open>serialize\<close> views, the \<^verbatim>\<open>get\<close> defaults, \<^verbatim>\<open>float\<close> and \<^verbatim>\<open>str\<close>,
    \<^verbatim>\<open>DictWriter\<close>'s extra-key check), \<open>json_collection\<close> and \<open>csv_rows\<close>
    (the loops), and the order of effects: the JSON writer collects before it
    opens the file, the CSV writer writes the header first. Proved: one
    expected object or row per linked result, in order; a name of
    \<^verbatim>\<open>None\<close> is written as \<^verbatim>\<open>null\<close>, not the empty-string default; a result
    without a NEO makes \<^verbatim>\<open>write_to_json\<close> raise with nothing written and
    leaves a truncated CSV file.
  \<^item> \<open>Extract\<close>: the row conversion of \<^verbatim>\<open>load_neos\<close> and
    \<^verbatim>\<open>load_approaches\<close> (\<open>load_neo_row\<close>, \<open>load_approach_row\<close>, the loop
    \<open>load_rows\<close>) over the rows the decoders deliver, \<^verbatim>\<open>csv.DictReader\<close>
    on the records of the file (\<open>dict_reader\<close>: header, \<^verbatim>\<open>None\<close> for the
    columns a short record lacks, blank records skipped), with
    \<^verbatim>\<open>float()\<close> on text (\<open>py_float_str\<close>: an optional sign, \<^verbatim>\<open>nan\<close> or a
    decimal literal with optional exponent). A row without a designation is
    outside the model (the value \<open>None\<close>). Proved: fixed-point literals parse
    to their value; the loaded NEOs' fields (name never empty, flag exactly for
    \<^verbatim>\<open>Y\<close>); the loaders establish the precondition \<open>fresh\<close> of the database;
    a zero distance becomes NaN; a short JSON data row raises \<open>TypeError\<close>,
    while a short CSV record loads with the NaN diameter; the specification's
    example rows load to the sample entities.
  \<^item> \<open>Repr\<close>: \<^verbatim>\<open>__str__\<close> and \<^verbatim>\<open>__repr__\<close> of both entities
    (\<open>neo_str\<close>, \<open>neo_repr\<close>, \<open>approach_str\<close>, \<open>approach_repr\<close>) with the
    fixed-point float format (\<open>py_format_fixed\<close>: round half to even, sign kept
    on a negative zero, \<^verbatim>\<open>nan\<close>) and \<^verbatim>\<open>repr\<close> of strings (quote choice,
    escapes). \<open>int_str\<close> is a \<open>function\<close> on \<open>int\<close> whose termination is
    proved with the measure \<open>nat\<close>, and its domain predicate \<open>int_str_dom\<close>
    holds everywhere. Proved: the fixed-point text reads back
    through \<open>py_float_str\<close> to within half a unit of its last digit
    (a roundtrip across \<open>Repr\<close> and \<open>Extract\<close>); \<^verbatim>\<open>str\<close> of an approach
    without a NEO raises, its \<^verbatim>\<open>repr\<close> does not.
  \<^item> This theory: \<open>run_query\<close>, the path of the command-line \<^verbatim>\<open>query\<close>
    subcommand (build the database, build the filters, query, limit; the
    command-line module is not among the sources, so the composition follows
    the data flow of the specification), and the properties across
    components, composed from the component lemmas: the whole path returns
    exactly the approaches meeting the criteria (\<open>selected\<close>), for every
    limit (\<open>run_query_correct\<close>); the writers applied to it emit one expected
    record per selected approach (\<open>query_output_correct\<close>); a CSV diameter of
    zero is loaded as NaN and rejected by every diameter filter. Example
    theorems evaluate the specification's end-to-end example, the zero-bound
    divergence, and an approach of an unknown NEO passing the query and then
    crashing both writers.

  \<^bold>\<open>Loops and termination.\<close> Every loop of the core is over a finite list and
  is modelled as structural recursion or a fold (\<open>foldl\<close> over
  \<open>enumerate\<close> and over \<open>[0..<length cas]\<close>, \<open>find\<close>, \<open>fun\<close> on lists);
  \<open>int_str\<close> recurses on \<open>i div 10\<close> and terminates by the measure \<open>nat\<close>;
  all definitions are total and executable, no fuel is needed, and the
  witnesses evaluate by \<open>simp\<close> or \<open>code_simp\<close>.

  \<^bold>\<open>Not modelled.\<close> Splitting the CSV text into records (quoting, line
  ends) and the JSON decoder of \<^verbatim>\<open>extract.py\<close>: the input is the list of
  records, or of data rows, they deliver. The infinities and digit
  separators \<^verbatim>\<open>float()\<close> also accepts. Of \<^verbatim>\<open>write.py\<close> the bytes the
  \<^verbatim>\<open>csv\<close> and \<^verbatim>\<open>json\<close> encoders produce are not modelled: a CSV line is
  the list of its cell values, the JSON file the list of objects dumped.
  \<^verbatim>\<open>NearEarthObject.__str__\<close> prints the diameter with \<^verbatim>\<open>str(float)\<close>, the
  shortest text that reads back as the same binary64 number; that depends on
  the binary representation, so the printer is a parameter of \<open>neo_str\<close>.
  Floats are reals plus NaN: rounding and the infinities are not modelled, as
  the core only stores and compares them. Strings are byte strings and case
  mapping is ASCII. Each position of the two lists is a distinct object: the
  same Python object passed twice is not modelled.
\<close>

section \<open>The query path of the command line\<close>

text \<open>
  \<^verbatim>\<open>limit(NEODatabase(neos, approaches).query(create_filters(...)), n)\<close>.
\<close>

definition run_query ::
  "near_earth_object list \<Rightarrow> close_approach list \<Rightarrow> filter_criteria \<Rightarrow> int option \<Rightarrow> close_approach gen" where
  "run_query ns cas c n = limit (query call_filter (neo_database ns cas) (create_filters c)) n"

text \<open>
  What the query path should select: the linked approaches, in stored order,
  whose NEO and attributes meet every given criterion.
\<close>

definition selected :: "near_earth_object list \<Rightarrow> close_approach list \<Rightarrow> filter_criteria \<Rightarrow> close_approach list" where
  "selected ns cas c =
     filter (\<lambda>a. \<exists>n. approach_neo (db_neos (neo_database ns cas)) a = Some n \<and> criteria_hold c n a)
       (db_approaches (neo_database ns cas))"

section \<open>Properties across components\<close>

lemma neo_database_all_linked:
  assumes "\<forall>a\<in>set cas. ca_designation a \<in> designation ` set ns"
    and "a \<in> set (db_approaches (neo_database ns cas))"
  shows "\<exists>n. approach_neo (db_neos (neo_database ns cas)) a = Some n"
proof -
  from assms(2) obtain j where j: "j < length cas"
    and a: "a = relink (designation_index ns) (cas ! j)"
    by (auto simp: neo_database_unfold link_simps in_set_conv_nth)
  from assms(1) j have "designation_index ns (ca_designation (cas ! j)) \<noteq> None"
    by (simp add: designation_index_None)
  with a show ?thesis
    by (auto simp: approach_neo_def neo_relink)
qed

text \<open>
  Building the database and the filters and querying, before the limit: the
  component lemmas composed (linkage, the filters, the scan).
\<close>

lemma query_path_selects:
  assumes "\<forall>a\<in>set cas. ca_designation a \<in> designation ` set ns" and "bounds_nonzero c"
  shows "query call_filter (neo_database ns cas) (create_filters c) = (selected ns cas c, None)"
proof -
  let ?D = "neo_database ns cas"
  have pass: "first_error call_filter (db_neos ?D) a (create_filters c) = None \<and>
      passes_all call_filter (db_neos ?D) (create_filters c) a =
      (\<exists>n. approach_neo (db_neos ?D) a = Some n \<and> criteria_hold c n a)"
    if "a \<in> set (db_approaches ?D)" for a
  proof -
    from neo_database_all_linked [OF assms(1) that] obtain n
      where n: "approach_neo (db_neos ?D) a = Some n" by blast
    with create_filters_passes [OF assms(2) n] show ?thesis by simp
  qed
  then have total: "calls_total call_filter (db_neos ?D) (create_filters c) (db_approaches ?D)"
    by (auto simp: calls_total_def first_error_None_iff)
  have "filter (passes_all call_filter (db_neos ?D) (create_filters c)) (db_approaches ?D) = selected ns cas c"
    using pass unfolding selected_def by (auto intro: filter_cong)
  with total show ?thesis
    by (cases "create_filters c = []")
       (simp_all add: query_def query_scan_total passes_all_def)
qed

lemma selected_linked: "all_linked (db_neos (neo_database ns cas)) (selected ns cas c)"
  by (auto simp: selected_def all_linked_def list_all_iff)

text \<open>
  C4 (refinement, whole path): when every approach names a known NEO and
  every numeric bound is non-zero, the query path yields, in stored order,
  exactly the linked approaches whose NEO and attributes meet every given
  criterion: all of them with no limit or a limit of 0, the first \<open>k\<close> for a
  positive limit \<open>k\<close>, and for a negative limit nothing but \<open>ValueError\<close>.
\<close>

theorem run_query_correct:
  assumes "\<forall>a\<in>set cas. ca_designation a \<in> designation ` set ns" and "bounds_nonzero c"
  shows "run_query ns cas c n =
     (case n of
        None \<Rightarrow> (selected ns cas c, None)
      | Some k \<Rightarrow>
          if k = 0 then (selected ns cas c, None)
          else if k < 0 then ([], Some ValueError)
          else (take (nat k) (selected ns cas c), None))"
  using query_path_selects [OF assms]
  by (auto simp: run_query_def limit_def islice_list_def split: option.split)

text \<open>
  C19 (refinement, the program's output): under the same conditions, the
  writers applied to the unlimited query path emit exactly one record per
  selected approach, in order: \<open>write_to_json\<close> the expected JSON object and
  \<open>write_to_csv\<close> the header and the expected row, without an exception.
\<close>

theorem query_output_correct:
  assumes "\<forall>a\<in>set cas. ca_designation a \<in> designation ` set ns" and "bounds_nonzero c"
  shows "write_to_json (db_neos (neo_database ns cas)) (run_query ns cas c None) =
           Inr (map (\<lambda>a. expected_json (the (approach_neo (db_neos (neo_database ns cas)) a)) a)
                  (selected ns cas c)) \<and>
         write_to_csv (db_neos (neo_database ns cas)) (run_query ns cas c None) =
           (map JStr csv_fieldnames #
              map (\<lambda>a. expected_csv (the (approach_neo (db_neos (neo_database ns cas)) a)) a)
                (selected ns cas c), None)"
proof -
  have r: "run_query ns cas c None = (selected ns cas c, None)"
    using query_path_selects [OF assms] by (simp add: run_query_def limit_def)
  show ?thesis
    using selected_linked [of ns cas c]
    by (simp add: r write_to_json_def write_to_csv_def json_collection_linked csv_rows_linked)
qed

text \<open>
  Example (the specification's example): after linkage NEO 433 has its
  one approach; a maximum distance of 0.5 selects that approach, 0.1 selects
  none; the timestamp prints as \<^verbatim>\<open>1900-01-01 00:00\<close>.
\<close>

theorem spec_end_to_end:
  "get_neo_by_designation (neo_database [eros] [eros_1900]) ''433'' = Some (eros\<lparr>approaches := [0]\<rparr>) \<and>
   run_query [eros] [eros_1900] (no_criteria\<lparr>crit_distance_max := Some (Fin 0.5)\<rparr>) None =
     ([eros_1900\<lparr>neo := Some 0\<rparr>], None) \<and>
   run_query [eros] [eros_1900] (no_criteria\<lparr>crit_distance_max := Some (Fin 0.1)\<rparr>) None = ([], None) \<and>
   map_sum id datetime_to_str (cd_to_datetime ''1900-Jan-01 00:00'') = Inr ''1900-01-01 00:00''"
proof (intro conjI)
  show "get_neo_by_designation (neo_database [eros] [eros_1900]) ''433'' = Some (eros\<lparr>approaches := [0]\<rparr>)"
    by (simp add: get_neo_by_designation_def eval_db py_simps)
  show "run_query [eros] [eros_1900] (no_criteria\<lparr>crit_distance_max := Some (Fin 0.5)\<rparr>) None =
     ([eros_1900\<lparr>neo := Some 0\<rparr>], None)"
    by (simp add: run_query_def eval_db create_filters_def when_truthy_def no_criteria_def limit_def
        query_def gen_cons_def)
  show "run_query [eros] [eros_1900] (no_criteria\<lparr>crit_distance_max := Some (Fin 0.1)\<rparr>) None = ([], None)"
    by (simp add: run_query_def eval_db create_filters_def when_truthy_def no_criteria_def limit_def
        query_def)
  show "map_sum id datetime_to_str (cd_to_datetime ''1900-Jan-01 00:00'') = Inr ''1900-01-01 00:00''"
    by code_simp
qed
text \<open>
  Example (divergence from the specification, end to end): a maximum distance of
  \<^verbatim>\<open>0\<close> should select no approach of the example, since its distance is
  0.32; the query path returns it, because the zero bound builds no filter.
\<close>

theorem spec_zero_bound_divergence:
  "\<not> criteria_hold (no_criteria\<lparr>crit_distance_max := Some (Fin 0)\<rparr>) eros eros_1900 \<and>
   run_query [eros] [eros_1900] (no_criteria\<lparr>crit_distance_max := Some (Fin 0)\<rparr>) None =
     ([eros_1900\<lparr>neo := Some 0\<rparr>], None)"
  by (simp add: run_query_def eval_db create_filters_def when_truthy_def no_criteria_def limit_def
      query_def gen_cons_def criteria_hold_def opt_holds_def)

text \<open>
  Example (error, whole program): the query path keeps an approach whose
  designation names no known NEO (with no criteria it is yielded unlinked),
  and then \<^verbatim>\<open>write_to_json\<close> raises \<open>AttributeError\<close> and writes nothing,
  while \<^verbatim>\<open>write_to_csv\<close> leaves the header and the row of the linked
  approach before it raises.
\<close>

theorem spec_writers_orphan:
  "run_query [eros] [eros_1900, orphan_2020] no_criteria None =
     ([eros_1900\<lparr>neo := Some 0\<rparr>, orphan_2020], None) \<and>
   write_to_json [eros\<lparr>approaches := [0]\<rparr>] ([eros_1900\<lparr>neo := Some 0\<rparr>, orphan_2020], None) =
     Inl AttributeError \<and>
   write_to_csv [eros\<lparr>approaches := [0]\<rparr>] ([eros_1900\<lparr>neo := Some 0\<rparr>, orphan_2020], None) =
     ([map JStr csv_fieldnames,
       [JStr ''1900-01-01 00:00'', JFloat (Fin 0.32), JFloat (Fin 5.5), JStr ''433'', JStr ''Eros'',
        JFloat (Fin 16.84), JStr ''False'']], Some AttributeError)"
proof (intro conjI)
  show "run_query [eros] [eros_1900, orphan_2020] no_criteria None =
     ([eros_1900\<lparr>neo := Some 0\<rparr>, orphan_2020], None)"
    by (simp add: run_query_def eval_db create_filters_def when_truthy_def no_criteria_def limit_def
        query_def)
  show "write_to_json [eros\<lparr>approaches := [0]\<rparr>] ([eros_1900\<lparr>neo := Some 0\<rparr>, orphan_2020], None) =
     Inl AttributeError"
    by (simp add: write_to_json_def writer_defs approach_neo_def sample_defs)
  have "datetime_to_str \<lparr>dt_year = 1900, dt_month = Suc 0, dt_day = Suc 0, dt_hour = 0, dt_minute = 0\<rparr> =
      ''1900-01-01 00:00''"
    by code_simp
  then show "write_to_csv [eros\<lparr>approaches := [0]\<rparr>] ([eros_1900\<lparr>neo := Some 0\<rparr>, orphan_2020], None) =
     ([map JStr csv_fieldnames,
       [JStr ''1900-01-01 00:00'', JFloat (Fin 0.32), JFloat (Fin 5.5), JStr ''433'', JStr ''Eros'',
        JFloat (Fin 16.84), JStr ''False'']], Some AttributeError)"
    by (simp add: write_to_csv_def writer_defs approach_neo_def sample_defs csv_fieldnames_def
        gen_cons_def)
qed

text \<open>
  C26 (divergence, sentinel, across loader and filters): a NEO whose CSV
  diameter cell reads as zero is stored with the NaN diameter, because
  \<^verbatim>\<open>diameter or float("nan")\<close> treats 0.0 as missing, so every diameter
  filter rejects its approaches, a maximum it meets included.
\<close>

theorem loaded_zero_diameter_rejected:
  assumes "load_neo_row r = Some (Inr n)" and "row_get r ''diameter'' = Some s"
    and "py_float_str s = Inr (Fin 0)" and "approach_neo ns a = Some n"
  shows "diameter n = NaN \<and> call_filter (DiameterFilter c v) ns a = Inr False"
proof -
  have "diameter n = NaN"
    using assms(1-3) by (auto simp: load_neo_row_def make_neo_def split: option.splits sum.splits if_splits)
  with assms(4) show ?thesis by simp
qed

subsection \<open>Witnesses\<close>

theorem run_query_correct_witness:
  "bounds_nonzero (no_criteria\<lparr>crit_distance_max := Some (Fin 0.5)\<rparr>) \<and>
   run_query [eros] [eros_1900, eros_1900\<lparr>distance := Fin 0.7\<rparr>]
     (no_criteria\<lparr>crit_distance_max := Some (Fin 0.5)\<rparr>) (Some 1) = ([eros_1900\<lparr>neo := Some 0\<rparr>], None)"
  using run_query_correct [of "[eros_1900, eros_1900\<lparr>distance := Fin 0.7\<rparr>]" "[eros]"
      "no_criteria\<lparr>crit_distance_max := Some (Fin 0.5)\<rparr>" "Some 1"]
  by (simp add: eval_db selected_def bounds_nonzero_def no_criteria_def criteria_hold_def opt_holds_def
      approach_neo_def)

theorem query_output_correct_witness:
  "write_to_json [eros\<lparr>approaches := [0]\<rparr>]
     (run_query [eros] [eros_1900] (no_criteria\<lparr>crit_distance_max := Some (Fin 0.5)\<rparr>) None) =
     Inr [expected_json (eros\<lparr>approaches := [0]\<rparr>) (eros_1900\<lparr>neo := Some 0\<rparr>)] \<and>
   write_to_csv [eros\<lparr>approaches := [0]\<rparr>]
     (run_query [eros] [eros_1900] (no_criteria\<lparr>crit_distance_max := Some (Fin 0.5)\<rparr>) None) =
     ([map JStr csv_fieldnames, expected_csv (eros\<lparr>approaches := [0]\<rparr>) (eros_1900\<lparr>neo := Some 0\<rparr>)], None)"
  using query_output_correct [of "[eros_1900]" "[eros]" "no_criteria\<lparr>crit_distance_max := Some (Fin 0.5)\<rparr>"]
  by (simp add: eval_db selected_def bounds_nonzero_def no_criteria_def criteria_hold_def opt_holds_def
      approach_neo_def)

theorem loaded_zero_diameter_rejected_witness:
  "load_neo_row (eros_csv_row[2 := (''diameter'', Some ''0'')]) = Some (Inr (eros\<lparr>diameter := NaN\<rparr>)) \<and>
   py_float_str ''0'' = Inr (Fin 0) \<and>
   call_filter (DiameterFilter OpLe (Fin 1)) [eros\<lparr>diameter := NaN\<rparr>] (eros_1900\<lparr>neo := Some 0\<rparr>) = Inr False"
proof -
  have l: "load_neo_row (eros_csv_row[2 := (''diameter'', Some ''0'')]) = Some (Inr (eros\<lparr>diameter := NaN\<rparr>))"
    by code_simp
  have r: "row_get (eros_csv_row[2 := (''diameter'', Some ''0'')]) ''diameter'' = Some ''0''"
    by code_simp
  have p: "py_float_str ''0'' = Inr (Fin 0)" by code_simp
  have a: "approach_neo [eros\<lparr>diameter := NaN\<rparr>] (eros_1900\<lparr>neo := Some 0\<rparr>) = Some (eros\<lparr>diameter := NaN\<rparr>)"
    by (simp add: approach_neo_def)
  show ?thesis using loaded_zero_diameter_rejected [OF l r p a] l p by simp
qed

end
